theory Spec2Isabelle
  imports Complex_Main
begin

section \<open>JavaScript values\<close>

text \<open>
  The values that cross the two WebSocket channels are what \<^verbatim>\<open>JSON.parse\<close> returns
  and what is handed to \<^verbatim>\<open>JSON.stringify\<close>. \<open>Undefined\<close> is the value of a
  missing property. Numbers are integers here (token counts and the like); fractional
  numbers are not modelled. An \<open>Obj\<close> lists the own properties of an object in
  insertion order, every key once.
\<close>

datatype jsv =
    Undefined
  | Null
  | Bool bool
  | Num int
  | Str string
  | Arr "jsv list"
  | Obj "(string \<times> jsv) list"

text \<open>Truthiness, as \<^verbatim>\<open>!x\<close>, \<^verbatim>\<open>x || y\<close> and \<^verbatim>\<open>if (x)\<close> read it.\<close>

fun truthy :: "jsv \<Rightarrow> bool" where
  "truthy Undefined = False"
| "truthy Null = False"
| "truthy (Bool b) = b"
| "truthy (Num n) = (n \<noteq> 0)"
| "truthy (Str s) = (s \<noteq> [])"
| "truthy (Arr xs) = True"
| "truthy (Obj kvs) = True"

text \<open>
  Property access \<^verbatim>\<open>x.k\<close>: a TypeError on \<^verbatim>\<open>undefined\<close> and \<^verbatim>\<open>null\<close>,
  the property's value on an object, \<^verbatim>\<open>undefined\<close> otherwise (none of the keys the
  server reads is a built-in property of a string, number, boolean or array).
\<close>

definition TypeError :: "string \<Rightarrow> string \<Rightarrow> string" where
  "TypeError of_what k =
     ''Cannot read properties of '' @ of_what @ '' (reading '' @ [CHR 0x27] @ k @ [CHR 0x27] @ '')''"

fun get_prop :: "jsv \<Rightarrow> string \<Rightarrow> string + jsv" where
  "get_prop Undefined k = Inl (TypeError ''undefined'' k)"
| "get_prop Null k = Inl (TypeError ''null'' k)"
| "get_prop (Obj kvs) k = Inr (case map_of kvs k of None \<Rightarrow> Undefined | Some v \<Rightarrow> v)"
| "get_prop (Bool b) k = Inr Undefined"
| "get_prop (Num n) k = Inr Undefined"
| "get_prop (Str s) k = Inr Undefined"
| "get_prop (Arr xs) k = Inr Undefined"

text \<open>
  Object literals with a spread, \<^verbatim>\<open>{k1: v1, ..., ...data}\<close>: a key of \<open>data\<close>
  that the literal already has overwrites the value in place, a new key is appended.
\<close>

fun obj_set :: "string \<Rightarrow> jsv \<Rightarrow> (string \<times> jsv) list \<Rightarrow> (string \<times> jsv) list" where
  "obj_set k v [] = [(k, v)]"
| "obj_set k v ((k', v') # kvs) = (if k' = k then (k, v) # kvs else (k', v') # obj_set k v kvs)"

fun spread :: "(string \<times> jsv) list \<Rightarrow> (string \<times> jsv) list \<Rightarrow> (string \<times> jsv) list" where
  "spread obj [] = obj"
| "spread obj ((k, v) # kvs) = spread (obj_set k v obj) kvs"

section \<open>Requests to the language model\<close>

text \<open>
  The objects exchanged with \<^verbatim>\<open>openai.chat.completions.create\<close>, typed as the
  client library types them. A \<open>chat_message\<close> is one entry of the \<^verbatim>\<open>messages\<close>
  array and of the conversation history: \<open>content\<close> is a string or \<^verbatim>\<open>null\<close>
  (or whatever the caller's event carried), \<open>tool_calls\<close> and \<open>tool_call_id\<close> are
  \<open>None\<close> when the property is missing.
\<close>

record tool_call =
  tc_id :: string
  tc_name :: string
  tc_arguments :: string

record chat_message =
  role :: string
  content :: jsv
  tool_calls :: "tool_call list option"
  tool_call_id :: "string option"

record completion_params =
  model :: string
  messages :: "chat_message list"
  max_tokens :: nat
  temperature :: rat
  tools :: "jsv list option"
  tool_choice :: "string option"

record usage =
  prompt_tokens :: nat
  completion_tokens :: nat
  total_tokens :: nat

text \<open>
  \<open>choices\<close> holds the \<^verbatim>\<open>message\<close> of each choice; \<open>usage\<close> is optional in the
  client library's type.
\<close>

record completion =
  choices :: "chat_message list"
  usage :: "usage option"

section \<open>Connections and the tunnel registry\<close>

text \<open>
  A WebSocket object is known by its identity (\<open>conn_id\<close>). Of each socket the model
  keeps \<open>readyState\<close> (1 is OPEN) and \<open>sent\<close>, the objects that were serialised and
  handed to its \<^verbatim>\<open>send\<close>, oldest first. \<open>activeTunnels\<close> is the process-wide
  \<^verbatim>\<open>Map\<close> from session token to the browser's socket; \<open>clock\<close> is what
  \<^verbatim>\<open>new Date().toISOString()\<close> returns. \<open>requests\<close> is the trace of the calls made
  to the model API, oldest first: the key of the client that made the call, and the
  parameters.
\<close>

type_synonym conn_id = nat

record websocket =
  readyState :: nat
  sent :: "jsv list"

record server =
  activeTunnels :: "string \<rightharpoonup> conn_id"
  sockets :: "conn_id \<Rightarrow> websocket"
  clock :: string
  requests :: "(jsv \<times> completion_params) list"

definition ws_send :: "conn_id \<Rightarrow> jsv \<Rightarrow> server \<Rightarrow> server" where
  "ws_send c msg s =
     s\<lparr>sockets := (sockets s)(c := (sockets s c)\<lparr>sent := sent (sockets s c) @ [msg]\<rparr>)\<rparr>"

text \<open>
  The \<^verbatim>\<open>/tunnel/\<close> branch of the connection handler, after the path has been
  classified and the token extracted: the socket is stored under the token and told so.
\<close>

definition tunnel_connection :: "string \<Rightarrow> conn_id \<Rightarrow> server \<Rightarrow> server" where
  "tunnel_connection sessionToken ws s =
     ws_send ws
       (Obj [(''type'', Str ''tunnel_connected''),
             (''sessionToken'', Str (take 20 sessionToken @ ''...''))])
       (s\<lparr>activeTunnels := (activeTunnels s)(sessionToken \<mapsto> ws)\<rparr>)"

text \<open>
  The \<^verbatim>\<open>close\<close> handler that the branch installs on \<open>ws\<close>. Its body is
  \<^verbatim>\<open>activeTunnels.delete(sessionToken)\<close>: the closing socket is not looked at.
\<close>

definition tunnel_close :: "string \<Rightarrow> conn_id \<Rightarrow> server \<Rightarrow> server" where
  "tunnel_close sessionToken ws s = s\<lparr>activeTunnels := (activeTunnels s)(sessionToken := None)\<rparr>"

text \<open>
  \<^verbatim>\<open>sendTunnelEvent\<close> of the conversation handler: best effort, to the socket that
  the registry holds for the token now, and only when that socket is open.
\<close>

definition sendTunnelEvent ::
  "string \<Rightarrow> string \<Rightarrow> (string \<times> jsv) list \<Rightarrow> server \<Rightarrow> server" where
  "sendTunnelEvent sessionToken eventType data s =
     (case activeTunnels s sessionToken of
        None \<Rightarrow> s
      | Some tunnelWs \<Rightarrow>
          if readyState (sockets s tunnelWs) = 1
          then ws_send tunnelWs
                 (Obj (spread [(''type'', Str eventType), (''timestamp'', Str (clock s))] data)) s
          else s)"

section \<open>The runtime\<close>

text \<open>
  What the server takes from its environment: \<^verbatim>\<open>JSON.parse\<close> (\<open>Inl\<close> is the
  message of the SyntaxError it throws), \<^verbatim>\<open>JSON.stringify\<close>, the model API behind
  \<^verbatim>\<open>openai.chat.completions.create\<close> of a client built with a given key (\<open>Inl\<close> is
  the message of the error it throws), and \<^verbatim>\<open>process.env.OPENAI_API_KEY\<close> (a string
  or \<^verbatim>\<open>undefined\<close>).
\<close>

record runtime =
  JSON_parse :: "string \<Rightarrow> string + jsv"
  JSON_stringify :: "jsv \<Rightarrow> string"
  create :: "jsv \<Rightarrow> completion_params \<Rightarrow> string + completion"
  OPENAI_API_KEY :: jsv

text \<open>A property of a value already known to be neither \<^verbatim>\<open>undefined\<close> nor \<^verbatim>\<open>null\<close>.\<close>

definition field :: "jsv \<Rightarrow> string \<Rightarrow> jsv" where
  "field data k = (case get_prop data k of Inl err \<Rightarrow> Undefined | Inr v \<Rightarrow> v)"

section \<open>The credential exchange\<close>

text \<open>
  \<^verbatim>\<open>requestCredentialsThroughTunnel\<close> returns \<^verbatim>\<open>null\<close> at once, or a promise
  that a message listener on the tunnel socket and a 10000 ms timer compete to settle.
  An \<open>exchange\<close> is the state of that promise and of its two callbacks: \<open>listening\<close>
  while \<^verbatim>\<open>messageHandler\<close> is registered on \<open>tunnelWs\<close>, \<open>timeout\<close> the milliseconds
  left on the timer while it is armed.
\<close>

datatype promise = Pending | Fulfilled jsv | Rejected string

text \<open>Settling a promise a second time does nothing.\<close>

definition resolve :: "jsv \<Rightarrow> promise \<Rightarrow> promise" where
  "resolve v p = (case p of Pending \<Rightarrow> Fulfilled v | Fulfilled w \<Rightarrow> p | Rejected e \<Rightarrow> p)"

definition reject :: "string \<Rightarrow> promise \<Rightarrow> promise" where
  "reject e p = (case p of Pending \<Rightarrow> Rejected e | Fulfilled w \<Rightarrow> p | Rejected e' \<Rightarrow> p)"

record exchange =
  requestId :: string
  tunnelWs :: conn_id
  promise :: promise
  listening :: bool
  timeout :: "nat option"

text \<open>
  \<open>requestId\<close> stands for the identifier the function builds from the time and a random
  suffix. \<open>Inl Null\<close> is the immediate \<^verbatim>\<open>return null\<close>.
\<close>

definition requestCredentialsThroughTunnel ::
  "string \<Rightarrow> string \<Rightarrow> server \<Rightarrow> (jsv + exchange) \<times> server" where
  "requestCredentialsThroughTunnel rid sessionToken s =
     (case activeTunnels s sessionToken of
        None \<Rightarrow> (Inl Null, s)
      | Some c \<Rightarrow>
          if readyState (sockets s c) \<noteq> 1 then (Inl Null, s)
          else (Inr \<lparr>requestId = rid, tunnelWs = c, promise = Pending,
                      listening = True, timeout = Some 10000\<rparr>,
                ws_send c (Obj [(''type'', Str ''credential_request''), (''requestId'', Str rid)]) s))"

definition messageHandler :: "runtime \<Rightarrow> string \<Rightarrow> exchange \<Rightarrow> exchange" where
  "messageHandler rt event_data x =
     (case JSON_parse rt event_data of
        Inl err \<Rightarrow> x
      | Inr data \<Rightarrow>
          (case get_prop data ''type'' of
             Inl err \<Rightarrow> x
           | Inr ty \<Rightarrow>
               if ty = Str ''credential_response'' \<and> field data ''requestId'' = Str (requestId x)
               then x\<lparr>timeout := None, listening := False,
                      promise := resolve (field data ''openaiApiKey'') (promise x)\<rparr>
               else x))"

definition timeout_fires :: "exchange \<Rightarrow> exchange" where
  "timeout_fires x =
     x\<lparr>timeout := None, listening := False,
       promise := reject ''Credential request timeout - browser may be closed'' (promise x)\<rparr>"

text \<open>
  What can happen to a pending exchange: a \<^verbatim>\<open>message\<close> event on the tunnel socket
  with the given \<^verbatim>\<open>event.data\<close>, or the passing of some milliseconds.
\<close>

datatype tunnel_event = Message string | Elapse nat

fun exchange_step :: "runtime \<Rightarrow> tunnel_event \<Rightarrow> exchange \<Rightarrow> exchange" where
  "exchange_step rt (Message event_data) x =
     (if listening x then messageHandler rt event_data x else x)"
| "exchange_step rt (Elapse n) x =
     (case timeout x of
        None \<Rightarrow> x
      | Some d \<Rightarrow> if d \<le> n then timeout_fires x else x\<lparr>timeout := Some (d - n)\<rparr>)"

fun exchange_run :: "runtime \<Rightarrow> tunnel_event list \<Rightarrow> exchange \<Rightarrow> exchange" where
  "exchange_run rt [] x = x"
| "exchange_run rt (e # es) x = exchange_run rt es (exchange_step rt e x)"

text \<open>Whether a message is the response that the pending request \<open>rid\<close> waits for.\<close>

definition is_response :: "runtime \<Rightarrow> string \<Rightarrow> string \<Rightarrow> bool" where
  "is_response rt rid event_data =
     (case JSON_parse rt event_data of
        Inl err \<Rightarrow> False
      | Inr data \<Rightarrow>
          (case get_prop data ''type'' of
             Inl err \<Rightarrow> False
           | Inr ty \<Rightarrow> ty = Str ''credential_response'' \<and> field data ''requestId'' = Str rid))"

fun answers :: "runtime \<Rightarrow> string \<Rightarrow> tunnel_event \<Rightarrow> bool" where
  "answers rt rid (Message event_data) = is_response rt rid event_data"
| "answers rt rid (Elapse n) = False"

fun elapsed :: "tunnel_event list \<Rightarrow> nat" where
  "elapsed [] = 0"
| "elapsed (Message event_data # es) = elapsed es"
| "elapsed (Elapse n # es) = n + elapsed es"

section \<open>The conversation handler\<close>

text \<open>
  The student's configuration as the connection handler builds it: a \<open>None\<close> is a
  \<^verbatim>\<open>null\<close> column or a missing setting, \<open>cfg_tools\<close> is the \<^verbatim>\<open>tools\<close> array.
\<close>

record student_config =
  student_name :: "string option"
  openai_api_key :: "string option"
  system_prompt :: "string option"
  cfg_tools :: "jsv list"

definition js_of :: "string option \<Rightarrow> jsv" where
  "js_of v = (case v of None \<Rightarrow> Null | Some s \<Rightarrow> Str s)"

record call_metadata =
  md_sessionToken :: string
  studentName :: jsv
  md_from :: jsv
  md_to :: jsv
  direction :: jsv
  callSid :: jsv
  startTime :: string
  sessionId :: jsv

text \<open>
  What one call of \<^verbatim>\<open>handleConversationRelay\<close> closes over: the call's socket, its
  arguments, the key the client was built with, the history and the metadata.
\<close>

record session =
  ws :: conn_id
  studentConfig :: student_config
  sessionToken :: string
  openaiApiKey :: jsv
  conversationHistory :: "chat_message list"
  callMetadata :: call_metadata

type_synonym call_state = "session \<times> server"

text \<open>
  The choice of the key, made once before the handlers are installed.
  \<open>requestCredentialsFn\<close> is \<open>None\<close> when no function was passed, and otherwise what
  awaiting \<^verbatim>\<open>requestCredentialsFn(sessionToken)\<close> gives: \<open>Inr v\<close> when the promise is
  fulfilled with \<open>v\<close>, \<open>Inl e\<close> when it is rejected. It is awaited only when the
  stored key is falsy.
\<close>

definition resolve_openaiApiKey ::
  "runtime \<Rightarrow> student_config \<Rightarrow> (string + jsv) option \<Rightarrow> jsv" where
  "resolve_openaiApiKey rt cfg requestCredentialsFn =
     (let stored = js_of (openai_api_key cfg);
          key = (if \<not> truthy stored
                 then (case requestCredentialsFn of
                         None \<Rightarrow> stored
                       | Some (Inl err) \<Rightarrow> stored
                       | Some (Inr v) \<Rightarrow> v)
                 else stored)
      in if \<not> truthy key then OPENAI_API_KEY rt else key)"

definition handleConversationRelay ::
  "runtime \<Rightarrow> conn_id \<Rightarrow> student_config \<Rightarrow> string \<Rightarrow> (string + jsv) option \<Rightarrow> server
     \<Rightarrow> session" where
  "handleConversationRelay rt sock cfg tok requestCredentialsFn srv =
     \<lparr>ws = sock, studentConfig = cfg, sessionToken = tok,
      openaiApiKey = resolve_openaiApiKey rt cfg requestCredentialsFn,
      conversationHistory = [],
      callMetadata =
        \<lparr>md_sessionToken = tok, studentName = js_of (student_name cfg), md_from = Null,
         md_to = Null, direction = Null, callSid = Null, startTime = clock srv,
         sessionId = Undefined\<rparr>\<rparr>"

definition join_lines :: "string list \<Rightarrow> string" where
  "join_lines ls = concat (case ls of [] \<Rightarrow> [] | l # rest \<Rightarrow> l # map (\<lambda>x. CHR 0x0A # x) rest)"

definition defaultPrompt :: string where
  "defaultPrompt = join_lines
     [''You are a helpful assistant.'',
      [],
      ''# Voice Conversation Guidelines'',
      ''- Keep responses BRIEF (1-2 sentences max)'',
      ''- Be conversational and natural'',
      ''- Avoid lists, bullet points, or structured formatting'',
      ''- Don't say '' @ [CHR 0x22] @ ''as an AI'' @ [CHR 0x22] @ '' or mention you're artificial'',
      ''- If you don't know something, say so briefly'',
      ''- Respond quickly - every second matters in voice'',
      ''- Use casual language, contractions, and natural speech patterns'',
      [],
      ''# Response Style'',
      ''- Short and direct'',
      ''- Friendly but professional'',
      ''- Natural and human-like'']"

definition apology :: string where
  "apology = ''I apologize, I encountered an error processing your request.''"

text \<open>
  \<^verbatim>\<open>(total_tokens * 0.000015).toFixed(6)\<close>, computed in millionths (the floating
  point product rounds to the same six decimals for every count a response can carry).
\<close>

fun digit_string :: "nat \<Rightarrow> string" where
  "digit_string n =
     (if n < 10 then [char_of (48 + n)]
      else digit_string (n div 10) @ [char_of (48 + n mod 10)])"

definition estimatedCost :: "nat \<Rightarrow> string" where
  "estimatedCost total_tokens_count =
     (let millionths = total_tokens_count * 15;
          frac = digit_string (millionths mod 1000000)
      in digit_string (millionths div 1000000) @ ''.'' @ replicate (6 - length frac) CHR ''0'' @ frac)"

definition push :: "chat_message \<Rightarrow> session \<Rightarrow> session" where
  "push m sess = sess\<lparr>conversationHistory := conversationHistory sess @ [m]\<rparr>"

text \<open>One call of the model API by the call's client: the call is traced, then answered.\<close>

definition call_model ::
  "runtime \<Rightarrow> completion_params \<Rightarrow> call_state \<Rightarrow> (string + completion) \<times> call_state" where
  "call_model rt params st =
     (create rt (openaiApiKey (fst st)) params,
      (fst st, (snd st)\<lparr>requests := requests (snd st) @ [(openaiApiKey (fst st), params)]\<rparr>))"

text \<open>\<^verbatim>\<open>executeToolCall\<close>: the placeholder result.\<close>

definition executeToolCall :: "runtime \<Rightarrow> string \<Rightarrow> jsv \<Rightarrow> jsv" where
  "executeToolCall rt toolName args =
     Obj [(''success'', Bool True),
          (''message'', Str (''Tool '' @ toolName @ '' executed with args: '' @ JSON_stringify rt args))]"

text \<open>The first loop over \<^verbatim>\<open>message.tool_calls\<close>: one start event per invocation.\<close>

fun announce_tools :: "string \<Rightarrow> tool_call list \<Rightarrow> server \<Rightarrow> server" where
  "announce_tools tok [] srv = srv"
| "announce_tools tok (toolCall # rest) srv =
     announce_tools tok rest
       (sendTunnelEvent tok ''tool_call_start''
          [(''toolName'', Str (tc_name toolCall)),
           (''arguments'', Str (tc_arguments toolCall)),
           (''toolCallId'', Str (tc_id toolCall))] srv)"

text \<open>
  The second loop: parse the arguments, run the tool, mirror the result, append the
  tool turn. \<open>Some e\<close> in the result is an error thrown on the way, with the state as
  it was left.
\<close>

fun execute_tools :: "runtime \<Rightarrow> tool_call list \<Rightarrow> call_state \<Rightarrow> string option \<times> call_state" where
  "execute_tools rt [] st = (None, st)"
| "execute_tools rt (toolCall # rest) st =
     (case JSON_parse rt (tc_arguments toolCall) of
        Inl err \<Rightarrow> (Some err, st)
      | Inr args \<Rightarrow>
          (let toolResult = executeToolCall rt (tc_name toolCall) args;
               srv' = sendTunnelEvent (sessionToken (fst st)) ''tool_call_result''
                        [(''toolName'', Str (tc_name toolCall)),
                         (''toolCallId'', Str (tc_id toolCall)),
                         (''result'', toolResult)] (snd st);
               sess' = push \<lparr>role = ''tool'', content = Str (JSON_stringify rt toolResult),
                             tool_calls = None, tool_call_id = Some (tc_id toolCall)\<rparr> (fst st)
           in execute_tools rt rest (sess', srv')))"

text \<open>The final answer: appended, mirrored, sent to the caller.\<close>

definition answer :: "jsv \<Rightarrow> (string \<times> jsv) list \<Rightarrow> call_state \<Rightarrow> call_state" where
  "answer aiResponse mirrored st =
     (let sess' = push \<lparr>role = ''assistant'', content = aiResponse,
                         tool_calls = None, tool_call_id = None\<rparr> (fst st);
          srv' = sendTunnelEvent (sessionToken sess') ''ai_response''
                   ((''text'', aiResponse) # mirrored) (snd st)
      in (sess',
          ws_send (ws sess')
            (Obj [(''type'', Str ''text''), (''token'', aiResponse), (''last'', Bool True)]) srv'))"

text \<open>
  The parameters of the two calls. \<open>completionParams\<close> is the object of that name, built
  for the first call from the configuration and the history; \<open>finalCompletionParams\<close> is
  the literal passed to the call that follows the tools.
\<close>

definition completionParams :: "student_config \<Rightarrow> chat_message list \<Rightarrow> completion_params" where
  "completionParams cfg history =
     \<lparr>model = ''gpt-4o-mini'',
      messages =
        \<lparr>role = ''system'',
         content = (if truthy (js_of (system_prompt cfg)) then js_of (system_prompt cfg)
                    else Str defaultPrompt),
         tool_calls = None, tool_call_id = None\<rparr>
        # history,
      max_tokens = 150, temperature = 7 / 10,
      tools = (if 0 < length (cfg_tools cfg) then Some (cfg_tools cfg) else None),
      tool_choice = (if 0 < length (cfg_tools cfg) then Some ''auto'' else None)\<rparr>"

definition finalCompletionParams :: "student_config \<Rightarrow> chat_message list \<Rightarrow> completion_params" where
  "finalCompletionParams cfg history =
     \<lparr>model = ''gpt-4o-mini'',
      messages =
        \<lparr>role = ''system'', content = js_of (system_prompt cfg),
         tool_calls = None, tool_call_id = None\<rparr>
        # history,
      max_tokens = 150, temperature = 7 / 10,
      tools = None, tool_choice = None\<rparr>"

definition tool_branch ::
  "runtime \<Rightarrow> chat_message \<Rightarrow> tool_call list \<Rightarrow> call_state \<Rightarrow> string option \<times> call_state" where
  "tool_branch rt message tcs st =
     (let tok = sessionToken (fst st);
          srv1 = announce_tools tok tcs (snd st);
          sess1 = push message (fst st)
      in case execute_tools rt tcs (sess1, srv1) of
           (Some err, st2) \<Rightarrow> (Some err, st2)
         | (None, st2) \<Rightarrow>
             (case call_model rt
                     (finalCompletionParams (studentConfig (fst st2))
                        (conversationHistory (fst st2))) st2 of
                (Inl err, st3) \<Rightarrow> (Some err, st3)
              | (Inr finalCompletion, st3) \<Rightarrow>
                  (case choices finalCompletion of
                     [] \<Rightarrow> (Some (TypeError ''undefined'' ''message''), st3)
                   | m # others \<Rightarrow>
                       (None,
                        answer (content m)
                          [(''afterTools'', Bool True),
                           (''tokensUsed'',
                            Num (case usage finalCompletion of
                                   None \<Rightarrow> 0 | Some u \<Rightarrow> int (total_tokens u)))]
                          st3))))"

text \<open>The body of the \<^verbatim>\<open>try\<close> of the prompt event.\<close>

definition prompt_try :: "runtime \<Rightarrow> call_state \<Rightarrow> string option \<times> call_state" where
  "prompt_try rt st =
     (case call_model rt
             (completionParams (studentConfig (fst st)) (conversationHistory (fst st))) st of
        (Inl err, st1) \<Rightarrow> (Some err, st1)
      | (Inr completion, st1) \<Rightarrow>
          (case choices completion of
             [] \<Rightarrow> (Some (TypeError ''undefined'' ''message''), st1)
           | message # others \<Rightarrow>
               (case usage completion of
                  None \<Rightarrow> (Some (TypeError ''undefined'' ''prompt_tokens''), st1)
                | Some u \<Rightarrow>
                    (let srv2 = sendTunnelEvent (sessionToken (fst st1)) ''token_usage''
                                  [(''promptTokens'', Num (int (prompt_tokens u))),
                                   (''completionTokens'', Num (int (completion_tokens u))),
                                   (''totalTokens'', Num (int (total_tokens u))),
                                   (''estimatedCost'', Str (estimatedCost (total_tokens u)))]
                                  (snd st1)
                     in case tool_calls message of
                          Some tcs \<Rightarrow> tool_branch rt message tcs (fst st1, srv2)
                        | None \<Rightarrow>
                            (None,
                             answer (content message)
                               [(''tokensUsed'', Num (int (total_tokens u)))]
                               (fst st1, srv2))))))"

text \<open>The prompt event: the user turn, the \<^verbatim>\<open>try\<close>, and its \<^verbatim>\<open>catch\<close>.\<close>

definition on_prompt :: "runtime \<Rightarrow> jsv \<Rightarrow> call_state \<Rightarrow> call_state" where
  "on_prompt rt data st =
     (let tok = sessionToken (fst st);
          srv1 = sendTunnelEvent tok ''user_spoke''
                   [(''transcript'', field data ''voicePrompt''),
                    (''callSid'', callSid (callMetadata (fst st)))] (snd st);
          sess1 = push \<lparr>role = ''user'', content = field data ''voicePrompt'',
                         tool_calls = None, tool_call_id = None\<rparr> (fst st)
      in case prompt_try rt (sess1, srv1) of
           (None, st2) \<Rightarrow> st2
         | (Some aiError, st2) \<Rightarrow>
             (fst st2,
              ws_send (ws (fst st2))
                (Obj [(''type'', Str ''text''), (''token'', Str apology), (''last'', Bool True)])
                (sendTunnelEvent tok ''error''
                   [(''message'', Str aiError), (''type'', Str ''openai_error'')] (snd st2))))"

definition on_setup :: "jsv \<Rightarrow> call_state \<Rightarrow> call_state" where
  "on_setup data st =
     ((fst st)\<lparr>callMetadata := (callMetadata (fst st))
         \<lparr>callSid := field data ''callSid'', md_from := field data ''from'',
          md_to := field data ''to'', direction := field data ''direction'',
          sessionId := field data ''sessionId''\<rparr>\<rparr>,
      sendTunnelEvent (sessionToken (fst st)) ''call_setup''
        [(''callSid'', field data ''callSid''), (''sessionId'', field data ''sessionId''),
         (''from'', field data ''from''), (''to'', field data ''to''),
         (''direction'', field data ''direction''),
         (''studentName'', js_of (student_name (studentConfig (fst st))))] (snd st))"

definition on_dtmf :: "jsv \<Rightarrow> call_state \<Rightarrow> call_state" where
  "on_dtmf data st =
     (fst st, sendTunnelEvent (sessionToken (fst st)) ''dtmf_pressed''
                [(''digit'', field data ''digit'')] (snd st))"

definition on_interrupt :: "jsv \<Rightarrow> call_state \<Rightarrow> call_state" where
  "on_interrupt data st =
     (fst st, sendTunnelEvent (sessionToken (fst st)) ''interrupted''
                [(''utteranceUntilInterrupt'', field data ''utteranceUntilInterrupt'')] (snd st))"

text \<open>
  The \<^verbatim>\<open>message\<close> handler of the call's socket. Whatever is thrown before the
  \<^verbatim>\<open>switch\<close> is reached (by \<^verbatim>\<open>JSON.parse\<close>, or by reading \<^verbatim>\<open>type\<close> of
  \<^verbatim>\<open>null\<close>) is caught by the outer \<^verbatim>\<open>catch\<close>, which only logs.
\<close>

definition on_message :: "runtime \<Rightarrow> string \<Rightarrow> call_state \<Rightarrow> call_state" where
  "on_message rt message st =
     (case JSON_parse rt message of
        Inl err \<Rightarrow> st
      | Inr data \<Rightarrow>
          (case get_prop data ''type'' of
             Inl err \<Rightarrow> st
           | Inr ty \<Rightarrow>
               if ty = Str ''setup'' then on_setup data st
               else if ty = Str ''prompt'' then on_prompt rt data st
               else if ty = Str ''dtmf'' then on_dtmf data st
               else if ty = Str ''interrupt'' then on_interrupt data st
               else st))"

fun on_messages :: "runtime \<Rightarrow> string list \<Rightarrow> call_state \<Rightarrow> call_state" where
  "on_messages rt [] st = st"
| "on_messages rt (m # ms) st = on_messages rt ms (on_message rt m st)"

section \<open>Notions used in the statements\<close>

text \<open>
  The tool turn that the second loop appends for one invocation whose arguments parse.
\<close>

definition tool_turn :: "runtime \<Rightarrow> tool_call \<Rightarrow> chat_message" where
  "tool_turn rt toolCall =
     \<lparr>role = ''tool'',
      content = Str (JSON_stringify rt
                  (executeToolCall rt (tc_name toolCall)
                     (projr (JSON_parse rt (tc_arguments toolCall))))),
      tool_calls = None, tool_call_id = Some (tc_id toolCall)\<rparr>"

definition user_turn :: "jsv \<Rightarrow> chat_message" where
  "user_turn data =
     \<lparr>role = ''user'', content = field data ''voicePrompt'', tool_calls = None,
      tool_call_id = None\<rparr>"

definition assistant_turn :: "jsv \<Rightarrow> chat_message" where
  "assistant_turn aiResponse =
     \<lparr>role = ''assistant'', content = aiResponse, tool_calls = None, tool_call_id = None\<rparr>"

definition text_message :: "jsv \<Rightarrow> jsv" where
  "text_message token = Obj [(''type'', Str ''text''), (''token'', token), (''last'', Bool True)]"

text \<open>
  An exchange whose promise is settled has lost both its callbacks.
\<close>

definition detached :: "exchange \<Rightarrow> bool" where
  "detached x = (promise x = Pending \<or> (\<not> listening x \<and> timeout x = None))"

text \<open>
  Mirroring touches nothing but what was sent on the token's tunnel socket.
\<close>

definition mirrored :: "string \<Rightarrow> server \<Rightarrow> server \<Rightarrow> bool" where
  "mirrored tok srv srv' =
     (activeTunnels srv' = activeTunnels srv \<and> requests srv' = requests srv \<and>
      clock srv' = clock srv \<and>
      (\<forall>c. readyState (sockets srv' c) = readyState (sockets srv c)) \<and>
      (\<forall>c. activeTunnels srv tok = Some c \<or> sockets srv' c = sockets srv c))"

text \<open>The object that \<^verbatim>\<open>sendTunnelEvent\<close> serialises.\<close>

definition mirror_event :: "string \<Rightarrow> string \<Rightarrow> (string \<times> jsv) list \<Rightarrow> jsv" where
  "mirror_event ts eventType data =
     Obj (spread [(''type'', Str eventType), (''timestamp'', Str ts)] data)"

text \<open>A run of mirrored events for one token, each an event type with its data.\<close>

fun send_all :: "string \<Rightarrow> (string \<times> (string \<times> jsv) list) list \<Rightarrow> server \<Rightarrow> server" where
  "send_all t [] s = s"
| "send_all t (e # es) s = send_all t es (sendTunnelEvent t (fst e) (snd e) s)"

text \<open>
  What a call keeps from one state to a later one: its socket, configuration, token and
  key, and the registry; the requests made in between were made with that key.
\<close>

definition continues :: "call_state \<Rightarrow> call_state \<Rightarrow> bool" where
  "continues st st' =
     (ws (fst st') = ws (fst st) \<and> studentConfig (fst st') = studentConfig (fst st) \<and>
      sessionToken (fst st') = sessionToken (fst st) \<and>
      openaiApiKey (fst st') = openaiApiKey (fst st) \<and>
      activeTunnels (snd st') = activeTunnels (snd st) \<and>
      (\<exists>new. requests (snd st') = requests (snd st) @ new \<and>
             list_all (\<lambda>r. fst r = openaiApiKey (fst st)) new))"


text \<open>
  The server after the first steps of a prompt event (the \<^verbatim>\<open>user_spoke\<close> event
  and the first request), after the \<^verbatim>\<open>token_usage\<close> event, and after the
  \<^verbatim>\<open>catch\<close> (the mirrored error and the apology).
\<close>

definition spoke :: "jsv \<Rightarrow> session \<Rightarrow> server \<Rightarrow> server" where
  "spoke data sess srv =
     (sendTunnelEvent (sessionToken sess) ''user_spoke''
        [(''transcript'', field data ''voicePrompt''),
         (''callSid'', callSid (callMetadata sess))] srv)
     \<lparr>requests := requests srv
        @ [(openaiApiKey sess,
            completionParams (studentConfig sess) (conversationHistory sess @ [user_turn data]))]\<rparr>"

definition used :: "usage \<Rightarrow> session \<Rightarrow> server \<Rightarrow> server" where
  "used u sess srv =
     sendTunnelEvent (sessionToken sess) ''token_usage''
       [(''promptTokens'', Num (int (prompt_tokens u))),
        (''completionTokens'', Num (int (completion_tokens u))),
        (''totalTokens'', Num (int (total_tokens u))),
        (''estimatedCost'', Str (estimatedCost (total_tokens u)))] srv"

definition failed :: "string \<Rightarrow> session \<Rightarrow> server \<Rightarrow> server" where
  "failed e sess srv =
     ws_send (ws sess) (text_message (Str apology))
       (sendTunnelEvent (sessionToken sess) ''error''
          [(''message'', Str e), (''type'', Str ''openai_error'')] srv)"

text \<open>Whether the arguments of a tool invocation are accepted by \<^verbatim>\<open>JSON.parse\<close>.\<close>

definition parses :: "runtime \<Rightarrow> tool_call \<Rightarrow> bool" where
  "parses rt toolCall =
     (case JSON_parse rt (tc_arguments toolCall) of Inl err \<Rightarrow> False | Inr args \<Rightarrow> True)"

section \<open>Example inputs\<close>

definition dq :: "string \<Rightarrow> string" where
  "dq s = CHR 0x22 # s @ [CHR 0x22]"

definition response_text :: string where
  "response_text =
     ''{'' @ dq ''type'' @ '':'' @ dq ''credential_response'' @ '','' @ dq ''requestId'' @ '':''
     @ dq ''req_1_abc'' @ '','' @ dq ''openaiApiKey'' @ '':'' @ dq ''sk-tunnel-1'' @ ''}''"

definition stale_response_text :: string where
  "stale_response_text =
     ''{'' @ dq ''type'' @ '':'' @ dq ''credential_response'' @ '','' @ dq ''requestId'' @ '':''
     @ dq ''req_0_old'' @ '','' @ dq ''openaiApiKey'' @ '':'' @ dq ''sk-tunnel-0'' @ ''}''"

definition prompt_text :: string where
  "prompt_text =
     ''{'' @ dq ''type'' @ '':'' @ dq ''prompt'' @ '','' @ dq ''voicePrompt'' @ '':''
     @ dq ''What's the weather?'' @ ''}''"

definition arguments_text :: string where
  "arguments_text = ''{'' @ dq ''city'' @ '':'' @ dq ''Paris'' @ ''}''"

definition example_parse :: "string \<Rightarrow> string + jsv" where
  "example_parse s =
     (if s = response_text
      then Inr (Obj [(''type'', Str ''credential_response''), (''requestId'', Str ''req_1_abc''),
                     (''openaiApiKey'', Str ''sk-tunnel-1'')])
      else if s = stale_response_text
      then Inr (Obj [(''type'', Str ''credential_response''), (''requestId'', Str ''req_0_old''),
                     (''openaiApiKey'', Str ''sk-tunnel-0'')])
      else if s = prompt_text
      then Inr (Obj [(''type'', Str ''prompt''), (''voicePrompt'', Str ''What's the weather?'')])
      else if s = arguments_text
      then Inr (Obj [(''city'', Str ''Paris'')])
      else Inl ''Unexpected token in JSON'')"

definition example_stringify :: "jsv \<Rightarrow> string" where
  "example_stringify v = (if v = Obj [(''city'', Str ''Paris'')] then arguments_text else ''{}'')"

text \<open>
  A model that gives \<open>first\<close> to a request whose last message is the caller's and
  \<open>second\<close> to any other.
\<close>

definition example_runtime :: "string + completion \<Rightarrow> string + completion \<Rightarrow> runtime" where
  "example_runtime first second =
     \<lparr>JSON_parse = example_parse, JSON_stringify = example_stringify,
      create = (\<lambda>key params. if role (last (messages params)) = ''user'' then first else second),
      OPENAI_API_KEY = Str ''sk-instructor''\<rparr>"

definition text_reply :: "string \<Rightarrow> completion" where
  "text_reply s =
     \<lparr>choices = [\<lparr>role = ''assistant'', content = Str s, tool_calls = None,
                   tool_call_id = None\<rparr>],
      usage = Some \<lparr>prompt_tokens = 40, completion_tokens = 8, total_tokens = 48\<rparr>\<rparr>"

definition tool_request :: "string \<Rightarrow> completion" where
  "tool_request arguments =
     \<lparr>choices = [\<lparr>role = ''assistant'', content = Null,
                   tool_calls = Some [\<lparr>tc_id = ''call_1'', tc_name = ''get_weather'',
                                       tc_arguments = arguments\<rparr>],
                   tool_call_id = None\<rparr>],
      usage = Some \<lparr>prompt_tokens = 50, completion_tokens = 10, total_tokens = 60\<rparr>\<rparr>"

definition example_config :: "jsv list \<Rightarrow> student_config" where
  "example_config declared =
     \<lparr>student_name = Some ''Ada'', openai_api_key = Some ''sk-live-1'', system_prompt = None,
      cfg_tools = declared\<rparr>"

definition weather_tool :: jsv where
  "weather_tool =
     Obj [(''type'', Str ''function''), (''function'', Obj [(''name'', Str ''get_weather'')])]"

definition server0 :: server where
  "server0 =
     \<lparr>activeTunnels = Map.empty, sockets = (\<lambda>c. \<lparr>readyState = 1, sent = []\<rparr>),
      clock = ''2025-01-01T00:00:00.000Z'', requests = []\<rparr>"

definition prompt_data :: jsv where
  "prompt_data = Obj [(''type'', Str ''prompt''), (''voicePrompt'', Str ''What's the weather?'')]"

definition weather_call :: tool_call where
  "weather_call = \<lparr>tc_id = ''call_1'', tc_name = ''get_weather'', tc_arguments = arguments_text\<rparr>"

definition weather_request :: chat_message where
  "weather_request =
     \<lparr>role = ''assistant'', content = Null, tool_calls = Some [weather_call],
      tool_call_id = None\<rparr>"

text \<open>
  A call on socket 7 for the token \<^verbatim>\<open>abc123\<close>, whose configuration stores the key
  \<^verbatim>\<open>sk-live-1\<close> and declares the given tools.
\<close>

definition example_call :: "runtime \<Rightarrow> jsv list \<Rightarrow> server \<Rightarrow> call_state" where
  "example_call rt declared srv =
     (handleConversationRelay rt 7 (example_config declared) ''abc123'' None srv, srv)"

text \<open>
  Answers that ask for several tools: a second invocation whose arguments parse, one
  whose arguments do not, and a completion that carries the given invocations.
\<close>

definition time_call :: tool_call where
  "time_call = \<lparr>tc_id = ''call_2'', tc_name = ''get_time'', tc_arguments = arguments_text\<rparr>"

definition broken_call :: tool_call where
  "broken_call = \<lparr>tc_id = ''call_2'', tc_name = ''get_time'', tc_arguments = ''{''\<rparr>"

definition tools_request :: "tool_call list \<Rightarrow> completion" where
  "tools_request tcs =
     \<lparr>choices = [\<lparr>role = ''assistant'', content = Null, tool_calls = Some tcs,
                   tool_call_id = None\<rparr>],
      usage = Some \<lparr>prompt_tokens = 50, completion_tokens = 10, total_tokens = 60\<rparr>\<rparr>"

lemma example_parse_simps:
  "example_parse response_text =
     Inr (Obj [(''type'', Str ''credential_response''), (''requestId'', Str ''req_1_abc''),
               (''openaiApiKey'', Str ''sk-tunnel-1'')])"
  "example_parse stale_response_text =
     Inr (Obj [(''type'', Str ''credential_response''), (''requestId'', Str ''req_0_old''),
               (''openaiApiKey'', Str ''sk-tunnel-0'')])"
  "example_parse prompt_text = Inr prompt_data"
  "example_parse arguments_text = Inr (Obj [(''city'', Str ''Paris'')])"
  "example_parse ''{'' = Inl ''Unexpected token in JSON''"
  "example_parse ''pong'' = Inl ''Unexpected token in JSON''"
  by (simp_all add: example_parse_def response_text_def stale_response_text_def prompt_text_def
        arguments_text_def dq_def prompt_data_def)

section \<open>The tunnel registry\<close>

lemma activeTunnels_ws_send: "activeTunnels (ws_send c m s) = activeTunnels s"
  by (simp add: ws_send_def)

lemma activeTunnels_tunnel_connection:
  "activeTunnels (tunnel_connection t c s) = (activeTunnels s)(t \<mapsto> c)"
  by (simp add: tunnel_connection_def activeTunnels_ws_send)

lemma ws_send_simps [simp]:
  "activeTunnels (ws_send c m s) = activeTunnels s"
  "requests (ws_send c m s) = requests s"
  "clock (ws_send c m s) = clock s"
  "sockets (ws_send c m s) c' =
     (if c' = c then (sockets s c)\<lparr>sent := sent (sockets s c) @ [m]\<rparr> else sockets s c')"
  by (simp_all add: ws_send_def)

lemma sendTunnelEvent_simps [simp]:
  "activeTunnels (sendTunnelEvent t ev d s) = activeTunnels s"
  "requests (sendTunnelEvent t ev d s) = requests s"
  "clock (sendTunnelEvent t ev d s) = clock s"
  "sockets (sendTunnelEvent t ev d s) c =
     (if activeTunnels s t = Some c \<and> readyState (sockets s c) = 1
      then (sockets s c)\<lparr>sent := sent (sockets s c) @ [mirror_event (clock s) ev d]\<rparr>
      else sockets s c)"
  by (auto simp: sendTunnelEvent_def mirror_event_def split: option.splits)

lemma send_all_registry: "activeTunnels (send_all t es s) = activeTunnels s"
  by (induction es arbitrary: s) simp_all

lemma send_all_sockets:
  "activeTunnels s t = Some c \<Longrightarrow>
   sockets (send_all t es s) c' =
     (if c' = c \<and> readyState (sockets s c) = 1
      then (sockets s c)\<lparr>sent := sent (sockets s c)
             @ map (\<lambda>e. mirror_event (clock s) (fst e) (snd e)) es\<rparr>
      else sockets s c')"
proof (induction es arbitrary: s)
  case Nil
  then show ?case by simp
next
  case (Cons e es)
  let ?s = "sendTunnelEvent t (fst e) (snd e) s"
  from Cons.prems have "activeTunnels ?s t = Some c" by simp
  from Cons.IH [OF this] Cons.prems show ?case by simp
qed

text \<open>
  C1, as the code has it. The close handler of a tunnel socket deletes the entry of its
  token whichever socket is registered then: the closing socket \<open>c\<close> plays no part in the
  result. Entries of other tokens and all sockets are left alone. So when \<open>c1\<close> was
  registered for \<open>t\<close>, \<open>c2\<close> was registered after it, and \<open>c1\<close> closes, the entry of \<open>c2\<close>
  is removed.
\<close>

theorem tunnel_close_deletes_by_token:
  "activeTunnels (tunnel_close t c s) t = None
   \<and> (t' \<noteq> t \<longrightarrow> activeTunnels (tunnel_close t c s) t' = activeTunnels s t')
   \<and> sockets (tunnel_close t c s) = sockets s
   \<and> activeTunnels (tunnel_close t c1 (tunnel_connection t c2 (tunnel_connection t c1 s))) t = None"
  by (simp add: tunnel_close_def)

theorem tunnel_close_deletes_by_token_witness:
  "activeTunnels (tunnel_close ''abc123'' 1 (tunnel_connection ''xyz789'' 2 server0)) ''abc123'' = None
   \<and> activeTunnels (tunnel_close ''abc123'' 1 (tunnel_connection ''xyz789'' 2 server0)) ''xyz789''
       = Some 2"
  using tunnel_close_deletes_by_token
    [of "''abc123''" 1 "tunnel_connection ''xyz789'' 2 server0" "''xyz789''"]
  by (simp add: activeTunnels_tunnel_connection)

text \<open>
  C1 as stated fails: socket 1 and then socket 2 register for the token, socket 2 holds
  the entry, and the close of the stale socket 1 removes it.
\<close>

theorem stale_close_removes_newer_tunnel:
  "activeTunnels (tunnel_connection ''abc123'' 2 (tunnel_connection ''abc123'' 1 server0))
     ''abc123'' = Some 2
   \<and> activeTunnels
        (tunnel_close ''abc123'' 1
           (tunnel_connection ''abc123'' 2 (tunnel_connection ''abc123'' 1 server0)))
        ''abc123'' \<noteq> Some 2"
  by (simp add: tunnel_close_def activeTunnels_tunnel_connection)

text \<open>
  C9. After a second registration for the same token the registry holds the newer
  socket, and only it: the map has one entry per token. Whenever the registry holds
  socket \<open>c\<close> for a token, any run of mirrored events for that token leaves the registry
  as it is and changes no socket but \<open>c\<close>; the events are appended, in order, to what
  \<open>c\<close> was sent when \<open>c\<close> is open, and dropped otherwise.
\<close>

theorem tunnel_registration_replaces:
  "activeTunnels (tunnel_connection t c2 (tunnel_connection t c1 s)) t = Some c2
   \<and> (activeTunnels s' t = Some c \<longrightarrow>
        activeTunnels (send_all t es s') = activeTunnels s'
        \<and> (\<forall>c'. c' \<noteq> c \<longrightarrow> sockets (send_all t es s') c' = sockets s' c')
        \<and> sent (sockets (send_all t es s') c) =
            (if readyState (sockets s' c) = 1
             then sent (sockets s' c) @ map (\<lambda>e. mirror_event (clock s') (fst e) (snd e)) es
             else sent (sockets s' c)))"
  by (simp add: activeTunnels_tunnel_connection send_all_registry send_all_sockets)

theorem tunnel_registration_replaces_witness:
  "activeTunnels (tunnel_connection ''abc123'' 2 (tunnel_connection ''abc123'' 1 server0))
     ''abc123'' = Some 2
   \<and> sent (sockets
        (send_all ''abc123'' [(''dtmf_pressed'', [(''digit'', Str ''5'')]),
                              (''dtmf_pressed'', [(''digit'', Str ''6'')])]
           (tunnel_connection ''abc123'' 2 (tunnel_connection ''abc123'' 1 server0))) 1)
      = [Obj [(''type'', Str ''tunnel_connected''), (''sessionToken'', Str ''abc123...'')]]
   \<and> sent (sockets
        (send_all ''abc123'' [(''dtmf_pressed'', [(''digit'', Str ''5'')]),
                              (''dtmf_pressed'', [(''digit'', Str ''6'')])]
           (tunnel_connection ''abc123'' 2 (tunnel_connection ''abc123'' 1 server0))) 2)
      = [Obj [(''type'', Str ''tunnel_connected''), (''sessionToken'', Str ''abc123...'')],
         Obj [(''type'', Str ''dtmf_pressed''), (''timestamp'', Str ''2025-01-01T00:00:00.000Z''),
              (''digit'', Str ''5'')],
         Obj [(''type'', Str ''dtmf_pressed''), (''timestamp'', Str ''2025-01-01T00:00:00.000Z''),
              (''digit'', Str ''6'')]]"
proof -
  let ?s = "tunnel_connection ''abc123'' 2 (tunnel_connection ''abc123'' 1 server0)"
  let ?es = "[(''dtmf_pressed'', [(''digit'', Str ''5'')]),
              (''dtmf_pressed'', [(''digit'', Str ''6'')])]"
  have h: "activeTunnels ?s ''abc123'' = Some 2"
    by (simp add: activeTunnels_tunnel_connection)
  have s: "readyState (sockets ?s 2) = 1"
    "sent (sockets ?s 1) =
       [Obj [(''type'', Str ''tunnel_connected''), (''sessionToken'', Str ''abc123...'')]]"
    "sent (sockets ?s 2) =
       [Obj [(''type'', Str ''tunnel_connected''), (''sessionToken'', Str ''abc123...'')]]"
    "clock ?s = ''2025-01-01T00:00:00.000Z''"
    by (simp_all add: tunnel_connection_def server0_def)
  note inst = tunnel_registration_replaces [of "''abc123''" 2 1 server0 ?s 2 ?es]
  from inst h have a: "sockets (send_all ''abc123'' ?es ?s) 1 = sockets ?s 1"
    by simp
  from inst h s have b: "sent (sockets (send_all ''abc123'' ?es ?s) 2) =
      sent (sockets ?s 2) @ map (\<lambda>e. mirror_event (clock ?s) (fst e) (snd e)) ?es"
    by simp
  from h a b s show ?thesis by (simp add: mirror_event_def)
qed

section \<open>The credential exchange\<close>

text \<open>
  C8. With no entry for the token, or an entry whose socket is not open, the function
  returns \<^verbatim>\<open>null\<close> at once and the server is as it was: nothing was sent on any
  socket.
\<close>

theorem credential_exchange_unavailable:
  "activeTunnels s t = None \<or> (\<exists>c. activeTunnels s t = Some c \<and> readyState (sockets s c) \<noteq> 1)
   \<Longrightarrow> requestCredentialsThroughTunnel rid t s = (Inl Null, s)"
  by (auto simp: requestCredentialsThroughTunnel_def)

theorem credential_exchange_unavailable_witness:
  "activeTunnels server0 ''xyz789'' = None
   \<and> requestCredentialsThroughTunnel ''req_1_abc'' ''xyz789'' server0 = (Inl Null, server0)
   \<and> activeTunnels
        ((tunnel_connection ''abc123'' 3 server0)
           \<lparr>sockets := (sockets (tunnel_connection ''abc123'' 3 server0))
              (3 := \<lparr>readyState = 3, sent = []\<rparr>)\<rparr>) ''abc123'' = Some 3
   \<and> requestCredentialsThroughTunnel ''req_1_abc'' ''abc123''
        ((tunnel_connection ''abc123'' 3 server0)
           \<lparr>sockets := (sockets (tunnel_connection ''abc123'' 3 server0))
              (3 := \<lparr>readyState = 3, sent = []\<rparr>)\<rparr>)
      = (Inl Null,
         (tunnel_connection ''abc123'' 3 server0)
           \<lparr>sockets := (sockets (tunnel_connection ''abc123'' 3 server0))
              (3 := \<lparr>readyState = 3, sent = []\<rparr>)\<rparr>)"
proof -
  let ?closed = "(tunnel_connection ''abc123'' 3 server0)
           \<lparr>sockets := (sockets (tunnel_connection ''abc123'' 3 server0))
              (3 := \<lparr>readyState = 3, sent = []\<rparr>)\<rparr>"
  have h: "activeTunnels server0 ''xyz789'' = None" by (simp add: server0_def)
  have k: "activeTunnels ?closed ''abc123'' = Some 3" "readyState (sockets ?closed 3) \<noteq> 1"
    by (simp_all add: activeTunnels_tunnel_connection)
  from k have "activeTunnels ?closed ''abc123'' = None
      \<or> (\<exists>c. activeTunnels ?closed ''abc123'' = Some c \<and> readyState (sockets ?closed c) \<noteq> 1)"
    by blast
  from credential_exchange_unavailable [OF this, of "''req_1_abc''"]
    credential_exchange_unavailable [of server0 "''xyz789''" "''req_1_abc''"] h k
  show ?thesis by blast
qed

lemma messageHandler_other:
  "\<not> is_response rt (requestId x) d \<Longrightarrow> messageHandler rt d x = x"
  by (auto simp: is_response_def messageHandler_def split: sum.splits)

lemma messageHandler_response:
  "JSON_parse rt d = Inr data \<Longrightarrow> is_response rt (requestId x) d \<Longrightarrow>
   messageHandler rt d x =
     x\<lparr>timeout := None, listening := False,
       promise := resolve (field data ''openaiApiKey'') (promise x)\<rparr>"
  by (auto simp: is_response_def messageHandler_def split: sum.splits)

lemma mismatch_ignored:
  "JSON_parse rt d = Inl err \<or>
   (\<exists>data. JSON_parse rt d = Inr data \<and> get_prop data ''requestId'' \<noteq> Inr (Str (requestId x)))
   \<Longrightarrow> exchange_step rt (Message d) x = x"
  by (auto simp: messageHandler_def field_def split: sum.splits)

lemma requestId_step: "requestId (exchange_step rt e x) = requestId x"
  by (cases e) (simp_all add: messageHandler_def timeout_fires_def split: sum.splits option.splits)

lemma requestId_run: "requestId (exchange_run rt es x) = requestId x"
  by (induction es arbitrary: x) (simp_all add: requestId_step)

lemma detached_step: "detached x \<Longrightarrow> detached (exchange_step rt e x)"
  by (cases e)
     (auto simp: detached_def messageHandler_def timeout_fires_def resolve_def reject_def
           split: sum.splits option.splits promise.splits)

lemma detached_run: "detached x \<Longrightarrow> detached (exchange_run rt es x)"
  by (induction es arbitrary: x) (auto simp: detached_step)

lemma settled_step:
  "\<not> listening x \<Longrightarrow> timeout x = None \<Longrightarrow> exchange_step rt e x = x"
  by (cases e) auto

lemma settled_run:
  "\<not> listening x \<Longrightarrow> timeout x = None \<Longrightarrow> exchange_run rt es x = x"
  by (induction es) (auto simp: settled_step)

lemma exchange_run_append:
  "exchange_run rt (es @ es') x = exchange_run rt es' (exchange_run rt es x)"
  by (induction es arbitrary: x) auto

text \<open>
  While no event answers the request, the exchange only counts the timer down, and the
  timer fires once the time that has passed reaches what was left on it.
\<close>

lemma unanswered_run:
  "promise x = Pending \<Longrightarrow> listening x \<Longrightarrow> timeout x = Some d \<Longrightarrow> 0 < d \<Longrightarrow>
   \<forall>e\<in>set es. \<not> answers rt (requestId x) e \<Longrightarrow>
   exchange_run rt es x =
     (if elapsed es < d then x\<lparr>timeout := Some (d - elapsed es)\<rparr> else timeout_fires x)"
proof (induction es arbitrary: x d)
  case Nil
  then show ?case by simp
next
  case (Cons e es)
  show ?case
  proof (cases e)
    case (Message m)
    with Cons.prems have "exchange_step rt e x = x"
      by (simp add: messageHandler_other)
    with Cons Message show ?thesis by simp
  next
    case (Elapse n)
    show ?thesis
    proof (cases "d \<le> n")
      case True
      with Cons.prems Elapse have "exchange_step rt e x = timeout_fires x" by simp
      moreover have "exchange_run rt es (timeout_fires x) = timeout_fires x"
        by (rule settled_run) (simp_all add: timeout_fires_def)
      ultimately show ?thesis using True Elapse by simp
    next
      case False
      let ?y = "x\<lparr>timeout := Some (d - n)\<rparr>"
      from False Cons.prems Elapse have st: "exchange_step rt e x = ?y" by simp
      have "exchange_run rt es ?y =
        (if elapsed es < d - n then ?y\<lparr>timeout := Some (d - n - elapsed es)\<rparr>
         else timeout_fires ?y)"
        using Cons.prems False by (intro Cons.IH) simp_all
      then show ?thesis using st False Elapse
        by (auto simp: timeout_fires_def)
    qed
  qed
qed

text \<open>
  C2. Let \<open>x0\<close> be the exchange that \<^verbatim>\<open>requestCredentialsThroughTunnel\<close> starts with the
  identifier \<open>rid\<close>; the timer is set to 10000 ms (10 seconds). (1) After events none of
  which answers the request and that take less than 10000 ms, a
  \<^verbatim>\<open>credential_response\<close> with the identifier \<open>rid\<close> fulfils the promise with the
  \<^verbatim>\<open>openaiApiKey\<close> it carries, clears the timer and removes the listener. (2) As long
  as no event answers the request, the promise stays pending until 10000 ms have passed,
  and is rejected with the timeout error from then on. (3) Once the promise is settled,
  no later event changes the exchange at all: a response that comes after the timeout, or
  a second response, is not seen. (4) At any moment, a message that does not parse, or
  whose \<^verbatim>\<open>requestId\<close> is missing or is not \<open>rid\<close>, changes nothing.
\<close>

theorem credential_exchange_settles_once:
  assumes "requestCredentialsThroughTunnel rid t s = (Inr x0, s')"
  shows "((\<forall>e\<in>set es1. \<not> answers rt rid e) \<and> elapsed es1 < 10000 \<and>
          JSON_parse rt d = Inr data \<and> is_response rt rid d \<longrightarrow>
            exchange_run rt (es1 @ [Message d]) x0 =
              x0\<lparr>timeout := None, listening := False,
                 promise := Fulfilled (field data ''openaiApiKey'')\<rparr>)
       \<and> ((\<forall>e\<in>set es2. \<not> answers rt rid e) \<longrightarrow>
            promise (exchange_run rt es2 x0) =
              (if elapsed es2 < 10000 then Pending
               else Rejected ''Credential request timeout - browser may be closed''))
       \<and> (promise (exchange_run rt es3 x0) \<noteq> Pending \<longrightarrow>
            exchange_run rt (es3 @ es4) x0 = exchange_run rt es3 x0)
       \<and> (JSON_parse rt d5 = Inl err \<or>
          (\<exists>data5. JSON_parse rt d5 = Inr data5 \<and> get_prop data5 ''requestId'' \<noteq> Inr (Str rid))
          \<longrightarrow> exchange_run rt (es5 @ [Message d5]) x0 = exchange_run rt es5 x0)"
proof -
  from assms have x0: "x0 = \<lparr>requestId = rid, tunnelWs = tunnelWs x0, promise = Pending,
      listening = True, timeout = Some 10000\<rparr>"
    by (auto simp: requestCredentialsThroughTunnel_def split: option.splits if_splits)
  have p: "promise x0 = Pending" "listening x0" "timeout x0 = Some 10000" "requestId x0 = rid"
    by (subst x0, simp)+
  have run: "exchange_run rt es x0 =
      (if elapsed es < 10000 then x0\<lparr>timeout := Some (10000 - elapsed es)\<rparr>
       else timeout_fires x0)"
    if "\<forall>e\<in>set es. \<not> answers rt rid e" for es
    using p that by (intro unanswered_run) simp_all
  have a: "exchange_run rt (es1 @ [Message d]) x0 =
               x0\<lparr>timeout := None, listening := False,
                  promise := Fulfilled (field data ''openaiApiKey'')\<rparr>"
    if "\<forall>e\<in>set es1. \<not> answers rt rid e" "elapsed es1 < 10000"
       "JSON_parse rt d = Inr data" "is_response rt rid d"
    using that p by (simp add: exchange_run_append run messageHandler_response resolve_def)
  have b: "promise (exchange_run rt es2 x0) =
               (if elapsed es2 < 10000 then Pending
                else Rejected ''Credential request timeout - browser may be closed'')"
    if "\<forall>e\<in>set es2. \<not> answers rt rid e"
    using that p by (simp add: run timeout_fires_def reject_def)
  have "detached x0" using p by (simp add: detached_def)
  then have "detached (exchange_run rt es3 x0)" by (rule detached_run)
  then have c: "exchange_run rt (es3 @ es4) x0 = exchange_run rt es3 x0"
    if "promise (exchange_run rt es3 x0) \<noteq> Pending"
    using that by (simp add: exchange_run_append settled_run detached_def)
  have e: "exchange_run rt (es5 @ [Message d5]) x0 = exchange_run rt es5 x0"
    if "JSON_parse rt d5 = Inl err \<or>
          (\<exists>data5. JSON_parse rt d5 = Inr data5 \<and> get_prop data5 ''requestId'' \<noteq> Inr (Str rid))"
  proof -
    have "requestId (exchange_run rt es5 x0) = rid" by (simp add: requestId_run p)
    with that have "exchange_step rt (Message d5) (exchange_run rt es5 x0) = exchange_run rt es5 x0"
      by (intro mismatch_ignored) simp
    then show ?thesis by (simp add: exchange_run_append)
  qed
  from a b c e show ?thesis by blast
qed

theorem credential_exchange_settles_once_witness:
  "fst (requestCredentialsThroughTunnel ''req_1_abc'' ''abc123''
          (tunnel_connection ''abc123'' 3 server0))
     = Inr \<lparr>requestId = ''req_1_abc'', tunnelWs = 3, promise = Pending, listening = True,
            timeout = Some 10000\<rparr>
   \<and> promise (exchange_run (example_runtime (Inl []) (Inl []))
        ([Elapse 4000, Message stale_response_text, Message ''pong''] @ [Message response_text])
        \<lparr>requestId = ''req_1_abc'', tunnelWs = 3, promise = Pending, listening = True,
          timeout = Some 10000\<rparr>) = Fulfilled (Str ''sk-tunnel-1'')
   \<and> promise (exchange_run (example_runtime (Inl []) (Inl []))
        [Message stale_response_text, Elapse 10000]
        \<lparr>requestId = ''req_1_abc'', tunnelWs = 3, promise = Pending, listening = True,
          timeout = Some 10000\<rparr>)
      = Rejected ''Credential request timeout - browser may be closed''
   \<and> exchange_run (example_runtime (Inl []) (Inl []))
        ([Message stale_response_text, Elapse 10000] @ [Message response_text])
        \<lparr>requestId = ''req_1_abc'', tunnelWs = 3, promise = Pending, listening = True,
          timeout = Some 10000\<rparr>
      = exchange_run (example_runtime (Inl []) (Inl []))
        [Message stale_response_text, Elapse 10000]
        \<lparr>requestId = ''req_1_abc'', tunnelWs = 3, promise = Pending, listening = True,
          timeout = Some 10000\<rparr>
   \<and> exchange_run (example_runtime (Inl []) (Inl []))
        ([Elapse 4000] @ [Message stale_response_text])
        \<lparr>requestId = ''req_1_abc'', tunnelWs = 3, promise = Pending, listening = True,
          timeout = Some 10000\<rparr>
      = exchange_run (example_runtime (Inl []) (Inl [])) [Elapse 4000]
        \<lparr>requestId = ''req_1_abc'', tunnelWs = 3, promise = Pending, listening = True,
          timeout = Some 10000\<rparr>"
proof -
  let ?rt = "example_runtime (Inl []) (Inl [])"
  let ?s = "tunnel_connection ''abc123'' 3 server0"
  let ?x0 = "\<lparr>requestId = ''req_1_abc'', tunnelWs = 3, promise = Pending, listening = True,
          timeout = Some 10000\<rparr>"
  let ?s' = "ws_send 3 (Obj [(''type'', Str ''credential_request''),
                              (''requestId'', Str ''req_1_abc'')]) ?s"
  let ?response = "Obj [(''type'', Str ''credential_response''), (''requestId'', Str ''req_1_abc''),
               (''openaiApiKey'', Str ''sk-tunnel-1'')]"
  let ?stale = "Obj [(''type'', Str ''credential_response''), (''requestId'', Str ''req_0_old''),
               (''openaiApiKey'', Str ''sk-tunnel-0'')]"
  have start: "requestCredentialsThroughTunnel ''req_1_abc'' ''abc123'' ?s = (Inr ?x0, ?s')"
    by (simp add: requestCredentialsThroughTunnel_def activeTunnels_tunnel_connection)
       (simp add: tunnel_connection_def server0_def)
  have parse: "JSON_parse ?rt = example_parse" by (simp add: example_runtime_def)
  have r: "is_response ?rt ''req_1_abc'' response_text"
    and nr: "\<not> is_response ?rt ''req_1_abc'' stale_response_text"
            "\<not> is_response ?rt ''req_1_abc'' ''pong''"
    by (simp_all add: is_response_def parse example_parse_simps field_def)
  have d: "JSON_parse ?rt response_text = Inr ?response"
    and d5: "JSON_parse ?rt stale_response_text = Inr ?stale"
            "get_prop ?stale ''requestId'' \<noteq> Inr (Str ''req_1_abc'')"
    by (simp_all add: parse example_parse_simps)
  note inst = credential_exchange_settles_once [OF start,
      where ?es1.0 = "[Elapse 4000, Message stale_response_text, Message ''pong'']"
        and rt = ?rt and d = response_text and data = ?response
        and ?es2.0 = "[Message stale_response_text, Elapse 10000]"
        and ?es3.0 = "[Message stale_response_text, Elapse 10000]"
        and ?es4.0 = "[Message response_text]"
        and ?d5.0 = stale_response_text and ?es5.0 = "[Elapse 4000]" and err = "[]"]
  have a: "promise (exchange_run ?rt
        ([Elapse 4000, Message stale_response_text, Message ''pong''] @ [Message response_text])
        ?x0) = Fulfilled (Str ''sk-tunnel-1'')"
    using inst r nr d by (simp add: field_def)
  have b: "promise (exchange_run ?rt [Message stale_response_text, Elapse 10000] ?x0)
      = Rejected ''Credential request timeout - browser may be closed''"
    using inst nr by simp
  have c: "exchange_run ?rt ([Message stale_response_text, Elapse 10000] @ [Message response_text]) ?x0
      = exchange_run ?rt [Message stale_response_text, Elapse 10000] ?x0"
    using inst b by simp
  have e: "exchange_run ?rt ([Elapse 4000] @ [Message stale_response_text]) ?x0
      = exchange_run ?rt [Elapse 4000] ?x0"
    using inst d5 by blast
  from start have s1: "fst (requestCredentialsThroughTunnel ''req_1_abc'' ''abc123'' ?s) = Inr ?x0"
    by simp
  from s1 a b c e show ?thesis by blast
qed

section \<open>The conversation handler\<close>

subsection \<open>What sending changes\<close>

lemma mirrored_refl: "mirrored tok s s"
  by (simp add: mirrored_def)

lemma mirrored_trans: "mirrored tok a b \<Longrightarrow> mirrored tok b c \<Longrightarrow> mirrored tok a c"
  unfolding mirrored_def by metis

lemma mirrored_send: "mirrored tok s (sendTunnelEvent tok ev d s)"
  by (simp add: mirrored_def)

lemma mirrored_announce: "mirrored tok s (announce_tools tok tcs s)"
proof (induction tcs arbitrary: s)
  case Nil
  show ?case by (simp add: mirrored_refl)
next
  case (Cons tc tcs)
  show ?case using mirrored_trans [OF mirrored_send Cons] by simp
qed

lemma mirrored_socket:
  "mirrored tok s s' \<Longrightarrow> activeTunnels s tok \<noteq> Some c \<Longrightarrow> sockets s' c = sockets s c"
  unfolding mirrored_def by metis

lemma execute_tools_parsed:
  "\<forall>tc\<in>set tcs. \<exists>args. JSON_parse rt (tc_arguments tc) = Inr args \<Longrightarrow>
   \<exists>srv'. execute_tools rt tcs (sess, srv) =
            (None, (sess\<lparr>conversationHistory :=
                           conversationHistory sess @ map (tool_turn rt) tcs\<rparr>, srv'))
          \<and> mirrored (sessionToken sess) srv srv'"
proof (induction tcs arbitrary: sess srv)
  case Nil
  show ?case by (simp add: mirrored_refl)
next
  case (Cons tc tcs)
  from Cons.prems obtain args where a: "JSON_parse rt (tc_arguments tc) = Inr args" by auto
  let ?sess = "push (tool_turn rt tc) sess"
  let ?srv = "sendTunnelEvent (sessionToken sess) ''tool_call_result''
                [(''toolName'', Str (tc_name tc)), (''toolCallId'', Str (tc_id tc)),
                 (''result'', executeToolCall rt (tc_name tc) args)] srv"
  have step: "execute_tools rt (tc # tcs) (sess, srv) = execute_tools rt tcs (?sess, ?srv)"
    using a by (simp add: tool_turn_def Let_def)
  from Cons.prems have "\<forall>tc\<in>set tcs. \<exists>args. JSON_parse rt (tc_arguments tc) = Inr args"
    by simp
  from Cons.IH [OF this, of ?sess ?srv] obtain srv' where
    r: "execute_tools rt tcs (?sess, ?srv) =
          (None, (?sess\<lparr>conversationHistory :=
                           conversationHistory ?sess @ map (tool_turn rt) tcs\<rparr>, srv'))"
    and m: "mirrored (sessionToken ?sess) ?srv srv'"
    by blast
  have "mirrored (sessionToken sess) srv srv'"
    using mirrored_trans [OF mirrored_send] m by (simp add: push_def)
  with step r show ?case by (auto simp: push_def)
qed

lemma spoke_simps [simp]:
  "activeTunnels (spoke data sess srv) = activeTunnels srv"
  "clock (spoke data sess srv) = clock srv"
  "requests (spoke data sess srv) =
     requests srv @ [(openaiApiKey sess,
        completionParams (studentConfig sess) (conversationHistory sess @ [user_turn data]))]"
  "sockets (spoke data sess srv) c =
     (if activeTunnels srv (sessionToken sess) = Some c \<and> readyState (sockets srv c) = 1
      then (sockets srv c)\<lparr>sent := sent (sockets srv c)
             @ [mirror_event (clock srv) ''user_spoke''
                  [(''transcript'', field data ''voicePrompt''),
                   (''callSid'', callSid (callMetadata sess))]]\<rparr>
      else sockets srv c)"
  by (simp_all add: spoke_def)

lemma failed_simps [simp]:
  "activeTunnels (failed e sess srv) = activeTunnels srv"
  "clock (failed e sess srv) = clock srv"
  "requests (failed e sess srv) = requests srv"
  by (simp_all add: failed_def)

lemma failed_call_socket:
  "activeTunnels srv (sessionToken sess) \<noteq> Some (ws sess) \<Longrightarrow>
   sockets (failed e sess srv) (ws sess) =
     (sockets srv (ws sess))\<lparr>sent := sent (sockets srv (ws sess)) @ [text_message (Str apology)]\<rparr>"
  by (simp add: failed_def)

lemma failed_tunnel_socket:
  "activeTunnels srv (sessionToken sess) = Some c \<Longrightarrow> c \<noteq> ws sess \<Longrightarrow>
   readyState (sockets srv c) = 1 \<Longrightarrow>
   sent (sockets (failed e sess srv) c) =
     sent (sockets srv c)
     @ [mirror_event (clock srv) ''error'' [(''message'', Str e), (''type'', Str ''openai_error'')]]"
  by (simp add: failed_def)

lemma used_simps [simp]:
  "activeTunnels (used u sess srv) = activeTunnels srv"
  "clock (used u sess srv) = clock srv"
  "requests (used u sess srv) = requests srv"
  by (simp_all add: used_def)


lemma mirrored_spoke:
  assumes "mirrored (sessionToken sess) (spoke data sess srv) srv2"
  shows "activeTunnels srv2 = activeTunnels srv" "clock srv2 = clock srv"
    "requests srv2 = requests srv @ [(openaiApiKey sess,
        completionParams (studentConfig sess) (conversationHistory sess @ [user_turn data]))]"
    "readyState (sockets srv2 c) = readyState (sockets srv c)"
    "activeTunnels srv (sessionToken sess) \<noteq> Some c \<Longrightarrow> sockets srv2 c = sockets srv c"
proof -
  from assms show "activeTunnels srv2 = activeTunnels srv" "clock srv2 = clock srv"
    "requests srv2 = requests srv @ [(openaiApiKey sess,
        completionParams (studentConfig sess) (conversationHistory sess @ [user_turn data]))]"
    by (simp_all add: mirrored_def)
  from assms have "readyState (sockets srv2 c) = readyState (sockets (spoke data sess srv) c)"
    by (simp add: mirrored_def)
  then show "readyState (sockets srv2 c) = readyState (sockets srv c)" by simp
  assume n: "activeTunnels srv (sessionToken sess) \<noteq> Some c"
  with assms have "sockets srv2 c = sockets (spoke data sess srv) c"
    by (intro mirrored_socket) simp_all
  with n show "sockets srv2 c = sockets srv c" by simp
qed

text \<open>
  The data of the mirrored model error has a \<^verbatim>\<open>type\<close> of its own, and the spread
  puts it over the event type.
\<close>

lemma error_event_type:
  "mirror_event ts ''error'' [(''message'', Str e), (''type'', Str ''openai_error'')] =
     Obj [(''type'', Str ''openai_error''), (''timestamp'', Str ts), (''message'', Str e)]"
  by (simp add: mirror_event_def)

subsection \<open>The prompt event, case by case\<close>

lemma on_message_prompt:
  "JSON_parse rt message = Inr data \<Longrightarrow> get_prop data ''type'' = Inr (Str ''prompt'') \<Longrightarrow>
   on_message rt message st = on_prompt rt data st"
  by (simp add: on_message_def)

lemma on_prompt_first_throws:
  assumes "create rt (openaiApiKey sess)
             (completionParams (studentConfig sess) (conversationHistory sess @ [user_turn data]))
           = Inl e"
  shows "on_prompt rt data (sess, srv) =
           (sess\<lparr>conversationHistory := conversationHistory sess @ [user_turn data]\<rparr>,
            failed e sess (spoke data sess srv))"
  using assms
  by (simp add: on_prompt_def prompt_try_def call_model_def push_def user_turn_def failed_def
        spoke_def text_message_def Let_def)




lemma on_prompt_tools:
  assumes c: "create rt (openaiApiKey sess)
             (completionParams (studentConfig sess) (conversationHistory sess @ [user_turn data]))
           = Inr completion"
    and m: "choices completion = m # others" "usage completion = Some u"
           "tool_calls m = Some tcs"
    and parsed: "\<forall>tc\<in>set tcs. \<exists>args. JSON_parse rt (tc_arguments tc) = Inr args"
    and h2: "h2 = conversationHistory sess @ user_turn data # m # map (tool_turn rt) tcs"
    and p1: "p1 = completionParams (studentConfig sess) (conversationHistory sess @ [user_turn data])"
    and p2: "p2 = finalCompletionParams (studentConfig sess) h2"
  shows "\<exists>srv2. mirrored (sessionToken sess) (spoke data sess srv) srv2 \<and>
           on_prompt rt data (sess, srv) =
             (case create rt (openaiApiKey sess) p2 of
                Inl e \<Rightarrow>
                  (sess\<lparr>conversationHistory := h2\<rparr>,
                   failed e sess
                     (srv2\<lparr>requests := requests srv @ [(openaiApiKey sess, p1), (openaiApiKey sess, p2)]\<rparr>))
              | Inr finalCompletion \<Rightarrow>
                  (case choices finalCompletion of
                     [] \<Rightarrow>
                       (sess\<lparr>conversationHistory := h2\<rparr>,
                        failed (TypeError ''undefined'' ''message'') sess
                          (srv2\<lparr>requests := requests srv @ [(openaiApiKey sess, p1), (openaiApiKey sess, p2)]\<rparr>))
                   | m2 # others2 \<Rightarrow>
                       (sess\<lparr>conversationHistory := h2 @ [assistant_turn (content m2)]\<rparr>,
                        ws_send (ws sess) (text_message (content m2))
                          (sendTunnelEvent (sessionToken sess) ''ai_response''
                             [(''text'', content m2), (''afterTools'', Bool True),
                              (''tokensUsed'',
                               Num (case usage finalCompletion of
                                      None \<Rightarrow> 0 | Some u \<Rightarrow> int (total_tokens u)))]
                             (srv2\<lparr>requests := requests srv @ [(openaiApiKey sess, p1), (openaiApiKey sess, p2)]\<rparr>)))))"
proof -
  let ?tok = "sessionToken sess"
  let ?sess1 = "sess\<lparr>conversationHistory := conversationHistory sess @ [user_turn data, m]\<rparr>"
  let ?srv1 = "announce_tools ?tok tcs (used u sess (spoke data sess srv))"
  from execute_tools_parsed [OF parsed, of ?sess1 ?srv1] obtain srv2 where
    ex: "execute_tools rt tcs (?sess1, ?srv1) = (None, (sess\<lparr>conversationHistory := h2\<rparr>, srv2))"
    and mi: "mirrored ?tok ?srv1 srv2"
    by (auto simp: h2)
  have "mirrored ?tok (spoke data sess srv) (used u sess (spoke data sess srv))"
    by (simp add: used_def mirrored_send)
  then have mir: "mirrored ?tok (spoke data sess srv) srv2"
    using mirrored_announce mi by (blast intro: mirrored_trans)
  have rq: "requests srv2 = requests srv @ [(openaiApiKey sess, p1)]"
    using mir by (simp add: mirrored_def spoke_def p1)
  have "on_prompt rt data (sess, srv) =
             (case create rt (openaiApiKey sess) p2 of
                Inl e \<Rightarrow>
                  (sess\<lparr>conversationHistory := h2\<rparr>,
                   failed e sess
                     (srv2\<lparr>requests := requests srv @ [(openaiApiKey sess, p1), (openaiApiKey sess, p2)]\<rparr>))
              | Inr finalCompletion \<Rightarrow>
                  (case choices finalCompletion of
                     [] \<Rightarrow>
                       (sess\<lparr>conversationHistory := h2\<rparr>,
                        failed (TypeError ''undefined'' ''message'') sess
                          (srv2\<lparr>requests := requests srv @ [(openaiApiKey sess, p1), (openaiApiKey sess, p2)]\<rparr>))
                   | m2 # others2 \<Rightarrow>
                       (sess\<lparr>conversationHistory := h2 @ [assistant_turn (content m2)]\<rparr>,
                        ws_send (ws sess) (text_message (content m2))
                          (sendTunnelEvent (sessionToken sess) ''ai_response''
                             [(''text'', content m2), (''afterTools'', Bool True),
                              (''tokensUsed'',
                               Num (case usage finalCompletion of
                                      None \<Rightarrow> 0 | Some u \<Rightarrow> int (total_tokens u)))]
                             (srv2\<lparr>requests := requests srv @ [(openaiApiKey sess, p1), (openaiApiKey sess, p2)]\<rparr>)))))"
    using c m ex rq
    by (simp add: on_prompt_def prompt_try_def tool_branch_def call_model_def push_def
          user_turn_def spoke_def used_def answer_def assistant_turn_def text_message_def
          failed_def Let_def p1 p2
        split: sum.splits list.splits)
  with mir show ?thesis by blast
qed

subsection \<open>What a call keeps\<close>

lemma continues_refl: "continues st st"
  by (simp add: continues_def)

lemma continues_trans:
  assumes "continues a b" "continues b c"
  shows "continues a c"
proof -
  from assms(1) obtain n1 where
    1: "requests (snd b) = requests (snd a) @ n1" "list_all (\<lambda>r. fst r = openaiApiKey (fst a)) n1"
    and k: "openaiApiKey (fst b) = openaiApiKey (fst a)"
    unfolding continues_def by blast
  from assms(2) obtain n2 where
    2: "requests (snd c) = requests (snd b) @ n2" "list_all (\<lambda>r. fst r = openaiApiKey (fst b)) n2"
    unfolding continues_def by blast
  from 1 2 k have "requests (snd c) = requests (snd a) @ (n1 @ n2)
      \<and> list_all (\<lambda>r. fst r = openaiApiKey (fst a)) (n1 @ n2)"
    by simp
  then have "\<exists>new. requests (snd c) = requests (snd a) @ new
      \<and> list_all (\<lambda>r. fst r = openaiApiKey (fst a)) new"
    by blast
  moreover from assms have "ws (fst c) = ws (fst a)" "studentConfig (fst c) = studentConfig (fst a)"
    "sessionToken (fst c) = sessionToken (fst a)" "openaiApiKey (fst c) = openaiApiKey (fst a)"
    "activeTunnels (snd c) = activeTunnels (snd a)"
    unfolding continues_def by simp_all
  ultimately show ?thesis unfolding continues_def by blast
qed

lemma continues_send:
  "continues st (s', srv') \<Longrightarrow> continues st (s', sendTunnelEvent t ev d srv')"
  by (simp add: continues_def)

lemma continues_ws_send:
  "continues st (s', srv') \<Longrightarrow> continues st (s', ws_send c m srv')"
  by (simp add: continues_def)

lemma continues_push:
  "continues st (s', srv') \<Longrightarrow> continues st (push m s', srv')"
  by (simp add: continues_def push_def)

lemma continues_logged:
  "continues st (fst st, (snd st)\<lparr>requests := requests (snd st) @ [(openaiApiKey (fst st), p)]\<rparr>)"
proof -
  have "requests (snd st) @ [(openaiApiKey (fst st), p)] = requests (snd st) @ [(openaiApiKey (fst st), p)]
      \<and> list_all (\<lambda>r. fst r = openaiApiKey (fst st)) [(openaiApiKey (fst st), p)]"
    by simp
  then have "\<exists>new. requests (snd st) @ [(openaiApiKey (fst st), p)] = requests (snd st) @ new
      \<and> list_all (\<lambda>r. fst r = openaiApiKey (fst st)) new"
    by blast
  then show ?thesis by (simp add: continues_def)
qed

lemma continues_call:
  "continues st st' \<Longrightarrow> continues st (snd (call_model rt p st'))"
  using continues_trans [OF _ continues_logged] by (simp add: call_model_def)

lemma continues_announce:
  "continues st (s', srv') \<Longrightarrow> continues st (s', announce_tools t tcs srv')"
  by (induction tcs arbitrary: srv') (simp_all add: continues_send)

lemma continues_execute:
  "continues st st' \<Longrightarrow> continues st (snd (execute_tools rt tcs st'))"
proof (induction tcs arbitrary: st')
  case Nil
  then show ?case by simp
next
  case (Cons tc tcs)
  show ?case
  proof (cases "JSON_parse rt (tc_arguments tc)")
    case (Inl e)
    with Cons.prems show ?thesis by simp
  next
    case (Inr args)
    have "continues st (fst st', snd st')" using Cons.prems by simp
    then show ?thesis using Inr
      by (simp add: Let_def Cons.IH continues_push continues_send)
  qed
qed

lemma continues_answer:
  "continues st st' \<Longrightarrow> continues st (answer a mir st')"
proof -
  assume "continues st st'"
  then have "continues st (fst st', snd st')" by simp
  then show ?thesis
    by (simp add: answer_def Let_def continues_ws_send continues_send continues_push push_def)
       (simp add: continues_def)
qed

lemma continues_tool_branch:
  assumes "continues st st'"
  shows "continues st (snd (tool_branch rt m tcs st'))"
proof -
  let ?st1 = "(push m (fst st'), announce_tools (sessionToken (fst st')) tcs (snd st'))"
  from assms have "continues st (fst st', snd st')" by simp
  then have 1: "continues st ?st1"
    by (simp add: continues_push continues_announce)
  then have 2: "continues st (snd (execute_tools rt tcs ?st1))"
    by (rule continues_execute)
  show ?thesis
  proof -
    obtain r st2 where Pair: "execute_tools rt tcs ?st1 = (r, st2)" by (rule prod.exhaust)
    with 2 have c2: "continues st st2" by simp
    show ?thesis
    proof (cases r)
      case (Some e)
      with Pair c2 show ?thesis by (simp add: tool_branch_def Let_def)
    next
      case None
      let ?p = "finalCompletionParams (studentConfig (fst st2)) (conversationHistory (fst st2))"
      have c3: "continues st (snd (call_model rt ?p st2))"
        using c2 by (rule continues_call)
      show ?thesis
      proof -
        obtain res st3 where cm: "call_model rt ?p st2 = (res, st3)" by (rule prod.exhaust)
        with c3 have "continues st st3" by simp
        then show ?thesis using Pair None cm
          by (simp add: tool_branch_def Let_def continues_answer
              split: sum.splits list.splits)
      qed
    qed
  qed
qed

lemma continues_prompt_try:
  assumes "continues st st'"
  shows "continues st (snd (prompt_try rt st'))"
proof -
  let ?p = "completionParams (studentConfig (fst st')) (conversationHistory (fst st'))"
  have c1: "continues st (snd (call_model rt ?p st'))"
    using assms by (rule continues_call)
  show ?thesis
  proof -
    obtain res st1 where Pair: "call_model rt ?p st' = (res, st1)" by (rule prod.exhaust)
    with c1 have c: "continues st st1" by simp
    then have "continues st (fst st1, snd st1)" by simp
    then have "continues st (fst st1, sendTunnelEvent t ev d (snd st1))" for t ev d
      by (rule continues_send)
    then show ?thesis using Pair c
      by (simp add: prompt_try_def Let_def continues_answer continues_tool_branch
          split: sum.splits list.splits option.splits)
  qed
qed

lemma continues_on_prompt: "continues st (on_prompt rt data st)"
proof -
  let ?st1 = "(push (user_turn data) (fst st),
     sendTunnelEvent (sessionToken (fst st)) ''user_spoke''
       [(''transcript'', field data ''voicePrompt''),
        (''callSid'', callSid (callMetadata (fst st)))] (snd st))"
  have "continues st (fst st, snd st)" by (simp add: continues_refl)
  then have "continues st ?st1" by (simp add: continues_push continues_send)
  then have c: "continues st (snd (prompt_try rt ?st1))" by (rule continues_prompt_try)
  show ?thesis
  proof -
    obtain r st2 where Pair: "prompt_try rt ?st1 = (r, st2)" by (rule prod.exhaust)
    with c have "continues st (fst st2, snd st2)" by simp
    then show ?thesis using Pair
      by (cases r) (simp_all add: on_prompt_def Let_def user_turn_def continues_ws_send
          continues_send)
  qed
qed

lemma continues_on_setup: "continues st (on_setup data st)"
  by (simp add: on_setup_def continues_def)

lemma continues_on_dtmf: "continues st (on_dtmf data st)"
  by (simp add: on_dtmf_def continues_def)

lemma continues_on_interrupt: "continues st (on_interrupt data st)"
  by (simp add: on_interrupt_def continues_def)

lemma continues_on_message: "continues st (on_message rt message st)"
  by (simp add: on_message_def continues_refl continues_on_prompt continues_on_setup
      continues_on_dtmf continues_on_interrupt split: sum.splits)

lemma continues_on_messages: "continues st (on_messages rt ms st)"
proof (induction ms arbitrary: st)
  case Nil
  show ?case by (simp add: continues_refl)
next
  case (Cons m ms)
  show ?case using continues_trans [OF continues_on_message Cons] by simp
qed

subsection \<open>The example call\<close>

lemmas example_defs =
  example_call_def handleConversationRelay_def example_config_def example_runtime_def
  resolve_openaiApiKey_def js_of_def server0_def tool_request_def text_reply_def
  on_message_def on_prompt_def prompt_try_def tool_branch_def call_model_def
  completionParams_def finalCompletionParams_def answer_def push_def sendTunnelEvent_def
  ws_send_def field_def executeToolCall_def text_message_def prompt_data_def Let_def

lemma example_event:
  "JSON_parse (example_runtime a b) prompt_text = Inr prompt_data"
  "get_prop prompt_data ''type'' = Inr (Str ''prompt'')"
  by (simp_all add: example_runtime_def example_parse_simps prompt_data_def)

lemma example_session:
  "studentConfig (fst (example_call rt declared srv)) = example_config declared"
  "sessionToken (fst (example_call rt declared srv)) = ''abc123''"
  "ws (fst (example_call rt declared srv)) = 7"
  "conversationHistory (fst (example_call rt declared srv)) = []"
  "openaiApiKey (fst (example_call (example_runtime a b) declared srv)) = Str ''sk-live-1''"
  "snd (example_call rt declared srv) = srv"
  by (simp_all add: example_call_def handleConversationRelay_def example_config_def
        resolve_openaiApiKey_def js_of_def)

lemma example_create:
  "create (example_runtime a b) k (completionParams cfg (h @ [user_turn d])) = a"
  "create (example_runtime a b) k (finalCompletionParams cfg (h @ [tool_turn rt tc])) = b"
  by (simp_all add: example_runtime_def completionParams_def finalCompletionParams_def
        user_turn_def tool_turn_def)

lemma tool_request_simps:
  "choices (tool_request arguments_text) = [weather_request]"
  "usage (tool_request arguments_text) =
     Some \<lparr>prompt_tokens = 50, completion_tokens = 10, total_tokens = 60\<rparr>"
  "tool_calls weather_request = Some [weather_call]"
  by (simp_all add: tool_request_def weather_request_def weather_call_def)

lemma weather_call_parsed:
  "\<forall>tc\<in>set [weather_call]. \<exists>args. JSON_parse (example_runtime a b) (tc_arguments tc) = Inr args"
  by (simp add: weather_call_def example_runtime_def example_parse_simps)

lemma example_final_create:
  "create (example_runtime a b) k
     (finalCompletionParams cfg (h @ m # map (tool_turn rt) [weather_call])) = b"
  by (simp add: example_runtime_def finalCompletionParams_def tool_turn_def)

subsection \<open>The turn\<close>

text \<open>
  C3 against the code. The configuration has no instruction text and declares a tool;
  the model asks for the tool, so two calls are made. The system turn of the first call
  carries the built-in default text; the system turn of the second carries
  \<^verbatim>\<open>null\<close>, since the second message list is built from
  \<^verbatim>\<open>studentConfig.system_prompt\<close> alone.
\<close>

theorem reinvocation_system_turn_has_no_default:
  "system_prompt (example_config [weather_tool]) = None
   \<and> map (\<lambda>r. role (hd (messages (snd r))))
     (requests (snd (on_message
        (example_runtime (Inr (tool_request arguments_text)) (Inr (text_reply ''Sunny in Paris.'')))
        prompt_text
        (example_call
           (example_runtime (Inr (tool_request arguments_text)) (Inr (text_reply ''Sunny in Paris.'')))
           [weather_tool] server0))))
   = [''system'', ''system'']
   \<and> map (\<lambda>r. content (hd (messages (snd r))))
     (requests (snd (on_message
        (example_runtime (Inr (tool_request arguments_text)) (Inr (text_reply ''Sunny in Paris.'')))
        prompt_text
        (example_call
           (example_runtime (Inr (tool_request arguments_text)) (Inr (text_reply ''Sunny in Paris.'')))
           [weather_tool] server0))))
   = [Str defaultPrompt, Null]"
  by (simp add: example_defs example_parse_simps)

text \<open>
  C4, as the code has it. For a prompt event on a call whose socket is not the token's
  tunnel socket: (1) when the first call of the model throws \<open>e\<close>, the history gains the
  user turn and nothing else, one request was made, the call's socket is as it was but
  for one more message sent, the text message with the apology (so its ready state is
  untouched), and an open tunnel socket was sent the \<^verbatim>\<open>user_spoke\<close> event and then
  the event built from \<^verbatim>\<open>sendTunnelEvent('error', {message, type: 'openai_error'})\<close>;
  (2) when the first call asks for tools whose arguments parse and the second call throws
  \<open>e2\<close>, the same holds for the call's socket, the event built from the error is the last
  one sent to an open tunnel socket, and the history keeps what was appended before the
  throw: the user turn, the model's tool-invocation turn \<open>m\<close> and the tool turns.
\<close>

theorem model_error_answered_with_apology:
  assumes ev: "JSON_parse rt message = Inr data" "get_prop data ''type'' = Inr (Str ''prompt'')"
    and call: "activeTunnels srv (sessionToken sess) \<noteq> Some (ws sess)"
    and h1: "h1 = conversationHistory sess @ [user_turn data]"
    and p1: "p1 = completionParams (studentConfig sess) h1"
    and h2: "h2 = h1 @ m # map (tool_turn rt) tcs"
    and p2: "p2 = finalCompletionParams (studentConfig sess) h2"
    and r: "on_message rt message (sess, srv) = (sess', srv')"
  shows "(create rt (openaiApiKey sess) p1 = Inl e \<longrightarrow>
            sess' = sess\<lparr>conversationHistory := h1\<rparr>
            \<and> requests srv' = requests srv @ [(openaiApiKey sess, p1)]
            \<and> sockets srv' (ws sess) =
                (sockets srv (ws sess))\<lparr>sent := sent (sockets srv (ws sess))
                   @ [text_message (Str apology)]\<rparr>
            \<and> (activeTunnels srv (sessionToken sess) = Some c \<and> readyState (sockets srv c) = 1 \<longrightarrow>
                 sent (sockets srv' c) =
                   sent (sockets srv c)
                   @ [mirror_event (clock srv) ''user_spoke''
                        [(''transcript'', field data ''voicePrompt''),
                         (''callSid'', callSid (callMetadata sess))],
                      mirror_event (clock srv) ''error''
                        [(''message'', Str e), (''type'', Str ''openai_error'')]]))
       \<and> (create rt (openaiApiKey sess) p1 = Inr completion \<and> choices completion = m # others \<and>
          usage completion = Some u \<and> tool_calls m = Some tcs \<and>
          (\<forall>tc\<in>set tcs. \<exists>args. JSON_parse rt (tc_arguments tc) = Inr args) \<and>
          create rt (openaiApiKey sess) p2 = Inl e2 \<longrightarrow>
            sess' = sess\<lparr>conversationHistory := h2\<rparr>
            \<and> requests srv' = requests srv @ [(openaiApiKey sess, p1), (openaiApiKey sess, p2)]
            \<and> sockets srv' (ws sess) =
                (sockets srv (ws sess))\<lparr>sent := sent (sockets srv (ws sess))
                   @ [text_message (Str apology)]\<rparr>
            \<and> (activeTunnels srv (sessionToken sess) = Some c \<and> readyState (sockets srv c) = 1 \<longrightarrow>
                 (\<exists>before. sent (sockets srv' c) =
                    before @ [mirror_event (clock srv) ''error''
                                [(''message'', Str e2), (''type'', Str ''openai_error'')]])))"
proof -
  from ev r have op: "on_prompt rt data (sess, srv) = (sess', srv')"
    by (simp add: on_message_prompt)
  have A: "sess' = sess\<lparr>conversationHistory := h1\<rparr>
            \<and> requests srv' = requests srv @ [(openaiApiKey sess, p1)]
            \<and> sockets srv' (ws sess) =
                (sockets srv (ws sess))\<lparr>sent := sent (sockets srv (ws sess))
                   @ [text_message (Str apology)]\<rparr>
            \<and> (activeTunnels srv (sessionToken sess) = Some c \<and> readyState (sockets srv c) = 1 \<longrightarrow>
                 sent (sockets srv' c) =
                   sent (sockets srv c)
                   @ [mirror_event (clock srv) ''user_spoke''
                        [(''transcript'', field data ''voicePrompt''),
                         (''callSid'', callSid (callMetadata sess))],
                      mirror_event (clock srv) ''error''
                        [(''message'', Str e), (''type'', Str ''openai_error'')]])"
    if t: "create rt (openaiApiKey sess) p1 = Inl e"
  proof -
    from on_prompt_first_throws [OF t [unfolded p1 h1], of srv] op
    have s: "sess' = sess\<lparr>conversationHistory := h1\<rparr>"
      and v: "srv' = failed e sess (spoke data sess srv)"
      by (simp_all add: h1)
    have 1: "requests srv' = requests srv @ [(openaiApiKey sess, p1)]"
      by (simp add: v p1 h1)
    have 2: "sockets srv' (ws sess) =
                (sockets srv (ws sess))\<lparr>sent := sent (sockets srv (ws sess))
                   @ [text_message (Str apology)]\<rparr>"
      using call by (simp add: v failed_call_socket)
    have 3: "sent (sockets srv' c) =
                   sent (sockets srv c)
                   @ [mirror_event (clock srv) ''user_spoke''
                        [(''transcript'', field data ''voicePrompt''),
                         (''callSid'', callSid (callMetadata sess))],
                      mirror_event (clock srv) ''error''
                        [(''message'', Str e), (''type'', Str ''openai_error'')]]"
      if o: "activeTunnels srv (sessionToken sess) = Some c" "readyState (sockets srv c) = 1"
    proof -
      from o call have "c \<noteq> ws sess" by auto
      with o show ?thesis by (simp add: v failed_tunnel_socket)
    qed
    from s 1 2 3 show ?thesis by blast
  qed
  have B: "sess' = sess\<lparr>conversationHistory := h2\<rparr>
            \<and> requests srv' = requests srv @ [(openaiApiKey sess, p1), (openaiApiKey sess, p2)]
            \<and> sockets srv' (ws sess) =
                (sockets srv (ws sess))\<lparr>sent := sent (sockets srv (ws sess))
                   @ [text_message (Str apology)]\<rparr>
            \<and> (activeTunnels srv (sessionToken sess) = Some c \<and> readyState (sockets srv c) = 1 \<longrightarrow>
                 (\<exists>before. sent (sockets srv' c) =
                    before @ [mirror_event (clock srv) ''error''
                                [(''message'', Str e2), (''type'', Str ''openai_error'')]]))"
    if t: "create rt (openaiApiKey sess) p1 = Inr completion" "choices completion = m # others"
          "usage completion = Some u" "tool_calls m = Some tcs"
          "\<forall>tc\<in>set tcs. \<exists>args. JSON_parse rt (tc_arguments tc) = Inr args"
          "create rt (openaiApiKey sess) p2 = Inl e2"
  proof -
    have h2': "h2 = conversationHistory sess @ user_turn data # m # map (tool_turn rt) tcs"
      by (simp add: h2 h1)
    have p1': "p1 = completionParams (studentConfig sess) (conversationHistory sess @ [user_turn data])"
      by (simp add: p1 h1)
    let ?srv = "\<lambda>srv2. srv2\<lparr>requests := requests srv @ [(openaiApiKey sess, p1), (openaiApiKey sess, p2)]\<rparr>"
    from on_prompt_tools [OF t(1) [unfolded p1'] t(2) t(3) t(4) t(5) h2' p1' p2, of srv]
    obtain srv2 where mi: "mirrored (sessionToken sess) (spoke data sess srv) srv2"
      and eq: "on_prompt rt data (sess, srv) =
        (sess\<lparr>conversationHistory := h2\<rparr>, failed e2 sess (?srv srv2))"
      using t(6) by auto
    from eq op have s: "sess' = sess\<lparr>conversationHistory := h2\<rparr>"
      and v: "srv' = failed e2 sess (?srv srv2)"
      by simp_all
    note ms = mirrored_spoke [OF mi]
    have 1: "requests srv' = requests srv @ [(openaiApiKey sess, p1), (openaiApiKey sess, p2)]"
      by (simp add: v)
    have 2: "sockets srv' (ws sess) =
                (sockets srv (ws sess))\<lparr>sent := sent (sockets srv (ws sess))
                   @ [text_message (Str apology)]\<rparr>"
      using call ms by (simp add: v failed_call_socket)
    have 3: "\<exists>before. sent (sockets srv' c) =
                    before @ [mirror_event (clock srv) ''error''
                                [(''message'', Str e2), (''type'', Str ''openai_error'')]]"
      if o: "activeTunnels srv (sessionToken sess) = Some c" "readyState (sockets srv c) = 1"
    proof -
      from o call have "c \<noteq> ws sess" by auto
      with o ms have "sent (sockets srv' c) =
          sent (sockets (?srv srv2) c)
          @ [mirror_event (clock srv) ''error''
               [(''message'', Str e2), (''type'', Str ''openai_error'')]]"
        by (simp add: v failed_tunnel_socket)
      then show ?thesis by blast
    qed
    from s 1 2 3 show ?thesis by blast
  qed
  from A B show ?thesis by blast
qed

theorem model_error_answered_with_apology_witness:
  "conversationHistory (fst (on_message
      (example_runtime (Inl ''401 Incorrect API key provided'') (Inl []))
      prompt_text
      (example_call (example_runtime (Inl ''401 Incorrect API key provided'') (Inl [])) []
         (tunnel_connection ''abc123'' 3 server0))))
   = [user_turn prompt_data]
   \<and> sent (sockets (snd (on_message
      (example_runtime (Inl ''401 Incorrect API key provided'') (Inl []))
      prompt_text
      (example_call (example_runtime (Inl ''401 Incorrect API key provided'') (Inl [])) []
         (tunnel_connection ''abc123'' 3 server0)))) 7)
   = [text_message (Str apology)]
   \<and> length (sent (sockets (snd (on_message
      (example_runtime (Inl ''401 Incorrect API key provided'') (Inl []))
      prompt_text
      (example_call (example_runtime (Inl ''401 Incorrect API key provided'') (Inl [])) []
         (tunnel_connection ''abc123'' 3 server0)))) 3)) = 3
   \<and> get_prop (last (sent (sockets (snd (on_message
      (example_runtime (Inl ''401 Incorrect API key provided'') (Inl []))
      prompt_text
      (example_call (example_runtime (Inl ''401 Incorrect API key provided'') (Inl [])) []
         (tunnel_connection ''abc123'' 3 server0)))) 3))) ''message''
     = Inr (Str ''401 Incorrect API key provided'')
   \<and> conversationHistory (fst (on_message
      (example_runtime (Inr (tool_request arguments_text)) (Inl ''429 Rate limit reached''))
      prompt_text
      (example_call
         (example_runtime (Inr (tool_request arguments_text)) (Inl ''429 Rate limit reached''))
         [weather_tool] server0)))
   = [user_turn prompt_data, weather_request,
      tool_turn (example_runtime (Inr (tool_request arguments_text)) (Inl ''429 Rate limit reached''))
        weather_call]
   \<and> sent (sockets (snd (on_message
      (example_runtime (Inr (tool_request arguments_text)) (Inl ''429 Rate limit reached''))
      prompt_text
      (example_call
         (example_runtime (Inr (tool_request arguments_text)) (Inl ''429 Rate limit reached''))
         [weather_tool] server0))) 7)
   = [text_message (Str apology)]"
proof -
  let ?rtA = "example_runtime (Inl ''401 Incorrect API key provided'') (Inl [])"
  let ?srvA = "tunnel_connection ''abc123'' 3 server0"
  let ?stA = "example_call ?rtA [] ?srvA"
  let ?XA = "on_message ?rtA prompt_text ?stA"
  have tun: "activeTunnels ?srvA ''abc123'' = Some 3" "readyState (sockets ?srvA 3) = 1"
    "sent (sockets ?srvA 3) =
       [Obj [(''type'', Str ''tunnel_connected''), (''sessionToken'', Str ''abc123...'')]]"
    "sent (sockets ?srvA 7) = []" "requests ?srvA = []"
    by (simp_all add: tunnel_connection_def server0_def)
  have callA: "activeTunnels ?srvA (sessionToken (fst ?stA)) \<noteq> Some (ws (fst ?stA))"
    by (simp add: example_session activeTunnels_tunnel_connection)
  have cA: "create ?rtA (openaiApiKey (fst ?stA))
              (completionParams (studentConfig (fst ?stA))
                 (conversationHistory (fst ?stA) @ [user_turn prompt_data]))
            = Inl ''401 Incorrect API key provided''"
    by (rule example_create)
  have rA: "on_message ?rtA prompt_text (fst ?stA, ?srvA) = (fst ?XA, snd ?XA)"
    by (simp add: example_call_def)
  note instA = model_error_answered_with_apology [OF example_event callA refl refl refl refl rA,
      where e = "''401 Incorrect API key provided''" and c = 3]
  from cA instA have A1: "conversationHistory (fst ?XA) = [user_turn prompt_data]"
    and A2: "sent (sockets (snd ?XA) 7) = [text_message (Str apology)]"
    by (simp_all add: example_session tun)
  from cA instA have A3: "sent (sockets (snd ?XA) 3) =
      [Obj [(''type'', Str ''tunnel_connected''), (''sessionToken'', Str ''abc123...'')],
       mirror_event (clock ?srvA) ''user_spoke''
         [(''transcript'', field prompt_data ''voicePrompt''),
          (''callSid'', callSid (callMetadata (fst ?stA)))],
       mirror_event (clock ?srvA) ''error''
         [(''message'', Str ''401 Incorrect API key provided''), (''type'', Str ''openai_error'')]]"
    by (simp add: example_session tun)
  from A3 have A4: "length (sent (sockets (snd ?XA) 3)) = 3"
    and A5: "get_prop (last (sent (sockets (snd ?XA) 3))) ''message''
               = Inr (Str ''401 Incorrect API key provided'')"
    by (simp_all add: mirror_event_def)
  let ?rtB = "example_runtime (Inr (tool_request arguments_text)) (Inl ''429 Rate limit reached'')"
  let ?stB = "example_call ?rtB [weather_tool] server0"
  let ?XB = "on_message ?rtB prompt_text ?stB"
  have callB: "activeTunnels server0 (sessionToken (fst ?stB)) \<noteq> Some (ws (fst ?stB))"
    by (simp add: server0_def)
  have c1: "create ?rtB (openaiApiKey (fst ?stB))
              (completionParams (studentConfig (fst ?stB))
                 (conversationHistory (fst ?stB) @ [user_turn prompt_data]))
            = Inr (tool_request arguments_text)"
    by (rule example_create)
  have c2: "create ?rtB (openaiApiKey (fst ?stB))
              (finalCompletionParams (studentConfig (fst ?stB))
                 ((conversationHistory (fst ?stB) @ [user_turn prompt_data]) @ weather_request
                    # map (tool_turn ?rtB) [weather_call]))
            = Inl ''429 Rate limit reached''"
    by (rule example_final_create)
  have rB: "on_message ?rtB prompt_text (fst ?stB, server0) = (fst ?XB, snd ?XB)"
    by (simp add: example_call_def)
  note instB = model_error_answered_with_apology [OF example_event callB refl refl refl refl rB,
      where m = weather_request and tcs = "[weather_call]"
        and completion = "tool_request arguments_text" and others = "[]"
        and u = "\<lparr>prompt_tokens = 50, completion_tokens = 10, total_tokens = 60\<rparr>"
        and ?e2.0 = "''429 Rate limit reached''"]
  from c1 c2 tool_request_simps weather_call_parsed [of "Inr (tool_request arguments_text)" "Inl ''429 Rate limit reached''"] instB
  have B1: "conversationHistory (fst ?XB) =
      [user_turn prompt_data, weather_request, tool_turn ?rtB weather_call]"
    and B2: "sent (sockets (snd ?XB) 7) = [text_message (Str apology)]"
    by (simp_all add: example_session server0_def)
  from A1 A2 A4 A5 B1 B2 show ?thesis by simp
qed

text \<open>
  C4 as stated fails: the model asks for a tool, the second call throws, the caller gets
  the apology, and the history has gained an assistant turn, the model's tool invocation.
\<close>

theorem reinvocation_error_keeps_assistant_turn:
  "conversationHistory (fst (example_call
        (example_runtime (Inr (tool_request arguments_text)) (Inl ''429 Rate limit reached''))
        [weather_tool] server0)) = []
   \<and> map (\<lambda>r. create
              (example_runtime (Inr (tool_request arguments_text)) (Inl ''429 Rate limit reached''))
              (fst r) (snd r))
       (requests (snd (on_message
        (example_runtime (Inr (tool_request arguments_text)) (Inl ''429 Rate limit reached''))
        prompt_text
        (example_call
           (example_runtime (Inr (tool_request arguments_text)) (Inl ''429 Rate limit reached''))
           [weather_tool] server0))))
     = [Inr (tool_request arguments_text), Inl ''429 Rate limit reached'']
   \<and> map role (conversationHistory (fst (on_message
        (example_runtime (Inr (tool_request arguments_text)) (Inl ''429 Rate limit reached''))
        prompt_text
        (example_call
           (example_runtime (Inr (tool_request arguments_text)) (Inl ''429 Rate limit reached''))
           [weather_tool] server0))))
   = [''user'', ''assistant'', ''tool'']
   \<and> sent (sockets (snd (on_message
        (example_runtime (Inr (tool_request arguments_text)) (Inl ''429 Rate limit reached''))
        prompt_text
        (example_call
           (example_runtime (Inr (tool_request arguments_text)) (Inl ''429 Rate limit reached''))
           [weather_tool] server0))) 7)
   = [text_message (Str apology)]"
  by (simp add: example_defs example_parse_simps)

text \<open>The second loop in general: it stops at the first invocation whose arguments do not parse.\<close>

lemma parses_iff: "parses rt tc = (\<exists>args. JSON_parse rt (tc_arguments tc) = Inr args)"
  by (simp add: parses_def split: sum.splits)

lemma execute_tools_stops:
  "\<exists>srv' r. execute_tools rt tcs (sess, srv) =
            (r, (sess\<lparr>conversationHistory :=
                        conversationHistory sess @ map (tool_turn rt) (takeWhile (parses rt) tcs)\<rparr>,
                 srv'))
          \<and> (r = None) = (\<forall>tc\<in>set tcs. parses rt tc)
          \<and> mirrored (sessionToken sess) srv srv'"
proof (induction tcs arbitrary: sess srv)
  case Nil
  show ?case by (simp add: mirrored_refl)
next
  case (Cons tc tcs)
  show ?case
  proof (cases "JSON_parse rt (tc_arguments tc)")
    case (Inl e)
    then have "\<not> parses rt tc" by (simp add: parses_def)
    with Inl show ?thesis by (simp add: mirrored_refl)
  next
    case (Inr args)
    then have p: "parses rt tc" by (simp add: parses_def)
    let ?sess = "push (tool_turn rt tc) sess"
    let ?srv = "sendTunnelEvent (sessionToken sess) ''tool_call_result''
                  [(''toolName'', Str (tc_name tc)), (''toolCallId'', Str (tc_id tc)),
                   (''result'', executeToolCall rt (tc_name tc) args)] srv"
    have step: "execute_tools rt (tc # tcs) (sess, srv) = execute_tools rt tcs (?sess, ?srv)"
      using Inr by (simp add: tool_turn_def Let_def)
    from Cons.IH [of ?sess ?srv] obtain srv' r where
      e: "execute_tools rt tcs (?sess, ?srv) =
            (r, (?sess\<lparr>conversationHistory :=
                        conversationHistory ?sess @ map (tool_turn rt) (takeWhile (parses rt) tcs)\<rparr>,
                 srv'))"
      and n: "(r = None) = (\<forall>tc\<in>set tcs. parses rt tc)"
      and m: "mirrored (sessionToken ?sess) ?srv srv'"
      by blast
    have "mirrored (sessionToken sess) srv srv'"
      using mirrored_trans [OF mirrored_send] m by (simp add: push_def)
    with step e n p show ?thesis by (auto simp: push_def)
  qed
qed

lemma on_prompt_tools_unparsable:
  assumes c: "create rt (openaiApiKey sess)
             (completionParams (studentConfig sess) (conversationHistory sess @ [user_turn data]))
           = Inr completion"
    and m: "choices completion = m # others" "usage completion = Some u"
           "tool_calls m = Some tcs"
    and bad: "\<not> (\<forall>tc\<in>set tcs. parses rt tc)"
  shows "\<exists>srv2 e. mirrored (sessionToken sess) (spoke data sess srv) srv2 \<and>
           on_prompt rt data (sess, srv) =
             (sess\<lparr>conversationHistory :=
                     conversationHistory sess @ user_turn data # m
                       # map (tool_turn rt) (takeWhile (parses rt) tcs)\<rparr>,
              failed e sess srv2)"
proof -
  let ?tok = "sessionToken sess"
  let ?sess1 = "sess\<lparr>conversationHistory := conversationHistory sess @ [user_turn data, m]\<rparr>"
  let ?srv1 = "announce_tools ?tok tcs (used u sess (spoke data sess srv))"
  let ?h = "conversationHistory sess @ user_turn data # m
              # map (tool_turn rt) (takeWhile (parses rt) tcs)"
  from execute_tools_stops [of rt tcs ?sess1 ?srv1] bad obtain srv2 r where
    ex: "execute_tools rt tcs (?sess1, ?srv1) = (r, (sess\<lparr>conversationHistory := ?h\<rparr>, srv2))"
    and r: "r \<noteq> None"
    and mi: "mirrored ?tok ?srv1 srv2"
    by auto
  from r obtain e where e: "r = Some e" by auto
  have "mirrored ?tok (spoke data sess srv) (used u sess (spoke data sess srv))"
    by (simp add: used_def mirrored_send)
  then have mir: "mirrored ?tok (spoke data sess srv) srv2"
    using mirrored_announce mi by (blast intro: mirrored_trans)
  have "on_prompt rt data (sess, srv) = (sess\<lparr>conversationHistory := ?h\<rparr>, failed e sess srv2)"
    using c m ex e
    by (simp add: on_prompt_def prompt_try_def tool_branch_def call_model_def push_def
          user_turn_def spoke_def used_def text_message_def failed_def Let_def)
  with mir show ?thesis by blast
qed

lemma tools_request_simps:
  "choices (tools_request tcs) =
     [\<lparr>role = ''assistant'', content = Null, tool_calls = Some tcs, tool_call_id = None\<rparr>]"
  "usage (tools_request tcs) =
     Some \<lparr>prompt_tokens = 50, completion_tokens = 10, total_tokens = 60\<rparr>"
  by (simp_all add: tools_request_def)

lemma example_parses:
  "parses (example_runtime a b) weather_call"
  "parses (example_runtime a b) time_call"
  "\<not> parses (example_runtime a b) broken_call"
  by (simp_all add: parses_def weather_call_def time_call_def broken_call_def example_runtime_def
        example_parse_simps)

lemma example_final_create_tools:
  "create (example_runtime a b) k
     (finalCompletionParams cfg (h @ u # m # map (tool_turn rt) (tc # tcs))) = b"
  by (simp add: example_runtime_def finalCompletionParams_def tool_turn_def last_map)

text \<open>
  C5, as the code has it. Take a prompt event whose first call returns a completion with
  usage figures and a first choice \<open>m\<close> that carries the tool invocations \<open>tcs\<close>, however
  many. Each tool turn carries its invocation's id as \<^verbatim>\<open>tool_call_id\<close>. When every
  invocation has arguments that parse as JSON, exactly one more call is made, with the
  history \<open>h2\<close>: the history so far, the user turn, the model's own turn \<open>m\<close>, then one
  tool turn per invocation, in order. The history keeps \<open>h2\<close> as its beginning whatever
  the second call does; when the second call returns a choice, its content is appended
  as the assistant turn and sent to the caller as the one text message. When some
  invocation has arguments that do not parse, whatever they are, no second call is made:
  the first call stays the only one, the history ends with the tool turns of the
  invocations before the first one that does not parse, and the caller gets the apology.
\<close>

theorem tool_round_trip_once:
  assumes ev: "JSON_parse rt message = Inr data" "get_prop data ''type'' = Inr (Str ''prompt'')"
    and call: "activeTunnels srv (sessionToken sess) \<noteq> Some (ws sess)"
    and p1: "p1 = completionParams (studentConfig sess) (conversationHistory sess @ [user_turn data])"
    and c1: "create rt (openaiApiKey sess) p1 = Inr completion"
            "choices completion = m # others" "usage completion = Some u"
            "tool_calls m = Some tcs"
    and h2: "h2 = conversationHistory sess @ user_turn data # m # map (tool_turn rt) tcs"
    and p2: "p2 = finalCompletionParams (studentConfig sess) h2"
    and r: "on_message rt message (sess, srv) = (sess', srv')"
  shows "map tool_call_id (map (tool_turn rt) tcs) = map (\<lambda>tc. Some (tc_id tc)) tcs
       \<and> ((\<forall>tc\<in>set tcs. parses rt tc) \<longrightarrow>
            requests srv' = requests srv @ [(openaiApiKey sess, p1), (openaiApiKey sess, p2)]
            \<and> take (length h2) (conversationHistory sess') = h2
            \<and> (create rt (openaiApiKey sess) p2 = Inr finalCompletion \<and>
               choices finalCompletion = m2 # others2 \<longrightarrow>
                 sess' = sess\<lparr>conversationHistory := h2 @ [assistant_turn (content m2)]\<rparr>
                 \<and> sockets srv' (ws sess) =
                     (sockets srv (ws sess))\<lparr>sent := sent (sockets srv (ws sess))
                        @ [text_message (content m2)]\<rparr>))
       \<and> (\<not> (\<forall>tc\<in>set tcs. parses rt tc) \<longrightarrow>
            requests srv' = requests srv @ [(openaiApiKey sess, p1)]
            \<and> sess' = sess\<lparr>conversationHistory :=
                 conversationHistory sess @ user_turn data # m
                   # map (tool_turn rt) (takeWhile (parses rt) tcs)\<rparr>
            \<and> sockets srv' (ws sess) =
                (sockets srv (ws sess))\<lparr>sent := sent (sockets srv (ws sess))
                   @ [text_message (Str apology)]\<rparr>)"
proof -
  from ev r have op: "on_prompt rt data (sess, srv) = (sess', srv')"
    by (simp add: on_message_prompt)
  have ids: "map tool_call_id (map (tool_turn rt) tcs) = map (\<lambda>tc. Some (tc_id tc)) tcs"
    by (simp add: tool_turn_def)
  have good: "requests srv' = requests srv @ [(openaiApiKey sess, p1), (openaiApiKey sess, p2)]
            \<and> take (length h2) (conversationHistory sess') = h2
            \<and> (create rt (openaiApiKey sess) p2 = Inr finalCompletion \<and>
               choices finalCompletion = m2 # others2 \<longrightarrow>
                 sess' = sess\<lparr>conversationHistory := h2 @ [assistant_turn (content m2)]\<rparr>
                 \<and> sockets srv' (ws sess) =
                     (sockets srv (ws sess))\<lparr>sent := sent (sockets srv (ws sess))
                        @ [text_message (content m2)]\<rparr>)"
    if all: "\<forall>tc\<in>set tcs. parses rt tc"
  proof -
    from all have parsed: "\<forall>tc\<in>set tcs. \<exists>args. JSON_parse rt (tc_arguments tc) = Inr args"
      by (simp add: parses_iff)
    let ?srv = "\<lambda>srv2. srv2\<lparr>requests := requests srv
                    @ [(openaiApiKey sess, p1), (openaiApiKey sess, p2)]\<rparr>"
    from on_prompt_tools [OF c1(1) [unfolded p1] c1(2) c1(3) c1(4) parsed h2 p1 p2, of srv]
    obtain srv2 where mi: "mirrored (sessionToken sess) (spoke data sess srv) srv2"
      and eq: "on_prompt rt data (sess, srv) =
        (case create rt (openaiApiKey sess) p2 of
           Inl e \<Rightarrow> (sess\<lparr>conversationHistory := h2\<rparr>, failed e sess (?srv srv2))
         | Inr finalCompletion \<Rightarrow>
             (case choices finalCompletion of
                [] \<Rightarrow> (sess\<lparr>conversationHistory := h2\<rparr>,
                       failed (TypeError ''undefined'' ''message'') sess (?srv srv2))
              | m2 # others2 \<Rightarrow>
                  (sess\<lparr>conversationHistory := h2 @ [assistant_turn (content m2)]\<rparr>,
                   ws_send (ws sess) (text_message (content m2))
                     (sendTunnelEvent (sessionToken sess) ''ai_response''
                        [(''text'', content m2), (''afterTools'', Bool True),
                         (''tokensUsed'',
                          Num (case usage finalCompletion of
                                 None \<Rightarrow> 0 | Some u \<Rightarrow> int (total_tokens u)))]
                        (?srv srv2)))))"
      by blast
    have a: "requests srv' = requests srv @ [(openaiApiKey sess, p1), (openaiApiKey sess, p2)]"
      using eq op by (auto split: sum.splits list.splits)
    have c: "take (length h2) (conversationHistory sess') = h2"
      using eq op by (auto split: sum.splits list.splits)
    have d: "sess' = sess\<lparr>conversationHistory := h2 @ [assistant_turn (content m2)]\<rparr>
              \<and> sockets srv' (ws sess) =
                  (sockets srv (ws sess))\<lparr>sent := sent (sockets srv (ws sess))
                     @ [text_message (content m2)]\<rparr>"
      if c2: "create rt (openaiApiKey sess) p2 = Inr finalCompletion"
             "choices finalCompletion = m2 # others2"
    proof -
      from eq op c2 have s: "sess' = sess\<lparr>conversationHistory := h2 @ [assistant_turn (content m2)]\<rparr>"
        and v: "srv' = ws_send (ws sess) (text_message (content m2))
           (sendTunnelEvent (sessionToken sess) ''ai_response''
              [(''text'', content m2), (''afterTools'', Bool True),
               (''tokensUsed'',
                Num (case usage finalCompletion of None \<Rightarrow> 0 | Some u \<Rightarrow> int (total_tokens u)))]
              (?srv srv2))"
        by simp_all
      have "sockets srv' (ws sess) =
             (sockets srv (ws sess))\<lparr>sent := sent (sockets srv (ws sess))
                @ [text_message (content m2)]\<rparr>"
        using call mirrored_spoke [OF mi] by (simp add: v)
      with s show ?thesis by simp
    qed
    from a c d show ?thesis by blast
  qed
  have bad: "requests srv' = requests srv @ [(openaiApiKey sess, p1)]
            \<and> sess' = sess\<lparr>conversationHistory :=
                 conversationHistory sess @ user_turn data # m
                   # map (tool_turn rt) (takeWhile (parses rt) tcs)\<rparr>
            \<and> sockets srv' (ws sess) =
                (sockets srv (ws sess))\<lparr>sent := sent (sockets srv (ws sess))
                   @ [text_message (Str apology)]\<rparr>"
    if some: "\<not> (\<forall>tc\<in>set tcs. parses rt tc)"
  proof -
    from on_prompt_tools_unparsable [OF c1(1) [unfolded p1] c1(2) c1(3) c1(4) some, of srv] op
    obtain srv2 e where mi: "mirrored (sessionToken sess) (spoke data sess srv) srv2"
      and s: "sess' = sess\<lparr>conversationHistory :=
                 conversationHistory sess @ user_turn data # m
                   # map (tool_turn rt) (takeWhile (parses rt) tcs)\<rparr>"
      and v: "srv' = failed e sess srv2"
      by auto
    note ms = mirrored_spoke [OF mi]
    have q: "requests srv' = requests srv @ [(openaiApiKey sess, p1)]"
      by (simp add: v ms(3) p1)
    have "activeTunnels srv2 (sessionToken sess) \<noteq> Some (ws sess)"
      using call by (simp add: ms(1))
    then have "sockets srv' (ws sess) =
                (sockets srv2 (ws sess))\<lparr>sent := sent (sockets srv2 (ws sess))
                   @ [text_message (Str apology)]\<rparr>"
      by (simp add: v failed_call_socket)
    moreover have "sockets srv2 (ws sess) = sockets srv (ws sess)"
      using call by (rule ms(5))
    ultimately have "sockets srv' (ws sess) =
                (sockets srv (ws sess))\<lparr>sent := sent (sockets srv (ws sess))
                   @ [text_message (Str apology)]\<rparr>"
      by simp
    with q s show ?thesis by blast
  qed
  from ids good bad show ?thesis by blast
qed

theorem tool_round_trip_once_witness:
  "map role (conversationHistory (fst (on_message
      (example_runtime (Inr (tools_request [weather_call, time_call]))
         (Inr (text_reply ''Sunny in Paris.'')))
      prompt_text
      (example_call
         (example_runtime (Inr (tools_request [weather_call, time_call]))
            (Inr (text_reply ''Sunny in Paris.'')))
         [weather_tool] server0))))
   = [''user'', ''assistant'', ''tool'', ''tool'', ''assistant'']
   \<and> map tool_call_id (conversationHistory (fst (on_message
      (example_runtime (Inr (tools_request [weather_call, time_call]))
         (Inr (text_reply ''Sunny in Paris.'')))
      prompt_text
      (example_call
         (example_runtime (Inr (tools_request [weather_call, time_call]))
            (Inr (text_reply ''Sunny in Paris.'')))
         [weather_tool] server0))))
   = [None, None, Some ''call_1'', Some ''call_2'', None]
   \<and> length (requests (snd (on_message
      (example_runtime (Inr (tools_request [weather_call, time_call]))
         (Inr (text_reply ''Sunny in Paris.'')))
      prompt_text
      (example_call
         (example_runtime (Inr (tools_request [weather_call, time_call]))
            (Inr (text_reply ''Sunny in Paris.'')))
         [weather_tool] server0)))) = 2
   \<and> sent (sockets (snd (on_message
      (example_runtime (Inr (tools_request [weather_call, time_call]))
         (Inr (text_reply ''Sunny in Paris.'')))
      prompt_text
      (example_call
         (example_runtime (Inr (tools_request [weather_call, time_call]))
            (Inr (text_reply ''Sunny in Paris.'')))
         [weather_tool] server0))) 7)
   = [text_message (Str ''Sunny in Paris.'')]
   \<and> map role (conversationHistory (fst (on_message
      (example_runtime (Inr (tools_request [weather_call, broken_call]))
         (Inr (text_reply ''Sunny in Paris.'')))
      prompt_text
      (example_call
         (example_runtime (Inr (tools_request [weather_call, broken_call]))
            (Inr (text_reply ''Sunny in Paris.'')))
         [weather_tool] server0))))
   = [''user'', ''assistant'', ''tool'']
   \<and> length (requests (snd (on_message
      (example_runtime (Inr (tools_request [weather_call, broken_call]))
         (Inr (text_reply ''Sunny in Paris.'')))
      prompt_text
      (example_call
         (example_runtime (Inr (tools_request [weather_call, broken_call]))
            (Inr (text_reply ''Sunny in Paris.'')))
         [weather_tool] server0)))) = 1
   \<and> sent (sockets (snd (on_message
      (example_runtime (Inr (tools_request [weather_call, broken_call]))
         (Inr (text_reply ''Sunny in Paris.'')))
      prompt_text
      (example_call
         (example_runtime (Inr (tools_request [weather_call, broken_call]))
            (Inr (text_reply ''Sunny in Paris.'')))
         [weather_tool] server0))) 7)
   = [text_message (Str apology)]"
proof -
  let ?rt = "example_runtime (Inr (tools_request [weather_call, time_call]))
               (Inr (text_reply ''Sunny in Paris.''))"
  let ?st = "example_call ?rt [weather_tool] server0"
  let ?X = "on_message ?rt prompt_text ?st"
  let ?m = "\<lparr>role = ''assistant'', content = Null, tool_calls = Some [weather_call, time_call],
              tool_call_id = None\<rparr>"
  let ?m2 = "\<lparr>role = ''assistant'', content = Str ''Sunny in Paris.'', tool_calls = None,
               tool_call_id = None\<rparr>"
  let ?rtB = "example_runtime (Inr (tools_request [weather_call, broken_call]))
                (Inr (text_reply ''Sunny in Paris.''))"
  let ?stB = "example_call ?rtB [weather_tool] server0"
  let ?Y = "on_message ?rtB prompt_text ?stB"
  let ?mB = "\<lparr>role = ''assistant'', content = Null, tool_calls = Some [weather_call, broken_call],
               tool_call_id = None\<rparr>"
  have call: "activeTunnels server0 (sessionToken (fst ?st)) \<noteq> Some (ws (fst ?st))"
    by (simp add: server0_def)
  have c1: "create ?rt (openaiApiKey (fst ?st))
              (completionParams (studentConfig (fst ?st))
                 (conversationHistory (fst ?st) @ [user_turn prompt_data]))
            = Inr (tools_request [weather_call, time_call])"
    by (rule example_create)
  have tc: "tool_calls ?m = Some [weather_call, time_call]"
    by simp
  have c2: "create ?rt (openaiApiKey (fst ?st))
              (finalCompletionParams (studentConfig (fst ?st))
                 (conversationHistory (fst ?st) @ user_turn prompt_data # ?m
                    # map (tool_turn ?rt) [weather_call, time_call]))
            = Inr (text_reply ''Sunny in Paris.'')"
    by (rule example_final_create_tools)
  have t: "choices (text_reply ''Sunny in Paris.'') = ?m2 # []"
    by (simp add: text_reply_def)
  have all: "\<forall>tc\<in>set [weather_call, time_call]. parses ?rt tc"
    by (simp add: example_parses)
  have r: "on_message ?rt prompt_text (fst ?st, server0) = (fst ?X, snd ?X)"
    by (simp add: example_call_def)
  note inst = tool_round_trip_once [OF example_event call refl c1 tools_request_simps tc
      refl refl r,
      where finalCompletion = "text_reply ''Sunny in Paris.''" and ?m2.0 = ?m2
        and ?others2.0 = "[]"]
  from all c2 t inst have h: "conversationHistory (fst ?X) =
      [user_turn prompt_data, ?m, tool_turn ?rt weather_call, tool_turn ?rt time_call,
       assistant_turn (Str ''Sunny in Paris.'')]"
    by (simp add: example_session)
  from all inst have q: "length (requests (snd ?X)) = 2"
    by (simp add: server0_def)
  from all c2 t inst have s: "sent (sockets (snd ?X) 7) = [text_message (Str ''Sunny in Paris.'')]"
    by (simp add: example_session server0_def)
  from h have g: "map role (conversationHistory (fst ?X))
        = [''user'', ''assistant'', ''tool'', ''tool'', ''assistant'']"
    "map tool_call_id (conversationHistory (fst ?X))
        = [None, None, Some ''call_1'', Some ''call_2'', None]"
    by (simp_all add: user_turn_def tool_turn_def assistant_turn_def weather_call_def
          time_call_def)
  have callB: "activeTunnels server0 (sessionToken (fst ?stB)) \<noteq> Some (ws (fst ?stB))"
    by (simp add: server0_def)
  have c1B: "create ?rtB (openaiApiKey (fst ?stB))
              (completionParams (studentConfig (fst ?stB))
                 (conversationHistory (fst ?stB) @ [user_turn prompt_data]))
            = Inr (tools_request [weather_call, broken_call])"
    by (rule example_create)
  have tcB: "tool_calls ?mB = Some [weather_call, broken_call]"
    by simp
  have some: "\<not> (\<forall>tc\<in>set [weather_call, broken_call]. parses ?rtB tc)"
    by (simp add: example_parses)
  have tw: "takeWhile (parses ?rtB) [weather_call, broken_call] = [weather_call]"
    by (simp add: example_parses)
  have rB: "on_message ?rtB prompt_text (fst ?stB, server0) = (fst ?Y, snd ?Y)"
    by (simp add: example_call_def)
  note instB = tool_round_trip_once [OF example_event callB refl c1B tools_request_simps tcB
      refl refl rB]
  from some tw instB have hB: "conversationHistory (fst ?Y) =
      [user_turn prompt_data, ?mB, tool_turn ?rtB weather_call]"
    by (simp add: example_session)
  from some instB have qB: "length (requests (snd ?Y)) = 1"
    by (simp add: server0_def)
  from some instB have sB: "sent (sockets (snd ?Y) 7) = [text_message (Str apology)]"
    by (simp add: example_session server0_def)
  from hB have gB: "map role (conversationHistory (fst ?Y)) = [''user'', ''assistant'', ''tool'']"
    by (simp add: user_turn_def tool_turn_def)
  from g q s gB qB sB show ?thesis by blast
qed

text \<open>
  C5 as stated fails: the model asks for one tool with the arguments \<^verbatim>\<open>{\<close>, which do
  not parse. No second call is made (one request in all), and the caller gets the
  apology.
\<close>

theorem unparsable_arguments_no_second_call:
  "tool_calls (hd (choices (tool_request ''{''))) \<noteq> None
   \<and> length (requests (snd (on_message
        (example_runtime (Inr (tool_request ''{'')) (Inr (text_reply ''Sunny in Paris.'')))
        prompt_text
        (example_call
           (example_runtime (Inr (tool_request ''{'')) (Inr (text_reply ''Sunny in Paris.'')))
           [weather_tool] server0)))) = 1
   \<and> sent (sockets (snd (on_message
        (example_runtime (Inr (tool_request ''{'')) (Inr (text_reply ''Sunny in Paris.'')))
        prompt_text
        (example_call
           (example_runtime (Inr (tool_request ''{'')) (Inr (text_reply ''Sunny in Paris.'')))
           [weather_tool] server0))) 7)
   = [text_message (Str apology)]"
  by (simp add: example_defs example_parse_simps)




subsection \<open>The key and the messages that do not parse\<close>

text \<open>
  C7. The key is the stored one when the configuration has a non-empty one, whatever the
  tunnel would give; otherwise what the credential exchange was fulfilled with, when that
  is truthy; otherwise (the exchange returned \<^verbatim>\<open>null\<close>, was rejected, or no exchange
  function was passed) the server's own key. The session starts with that key, no
  sequence of messages changes it, and every request made while handling them was made
  with it.
\<close>

theorem secret_resolved_once:
  "(openai_api_key cfg = Some k \<and> k \<noteq> [] \<longrightarrow> resolve_openaiApiKey rt cfg fn = Str k)
   \<and> (openai_api_key cfg = None \<or> openai_api_key cfg = Some [] \<longrightarrow>
        resolve_openaiApiKey rt cfg (Some (Inr v)) = (if truthy v then v else OPENAI_API_KEY rt)
        \<and> resolve_openaiApiKey rt cfg (Some (Inl e)) = OPENAI_API_KEY rt
        \<and> resolve_openaiApiKey rt cfg None = OPENAI_API_KEY rt)
   \<and> openaiApiKey (handleConversationRelay rt sock cfg tok fn srv0) = resolve_openaiApiKey rt cfg fn
   \<and> openaiApiKey (fst (on_messages rt ms (sess, srv))) = openaiApiKey sess
   \<and> (\<exists>new. requests (snd (on_messages rt ms (sess, srv))) = requests srv @ new
            \<and> (\<forall>r\<in>set new. fst r = openaiApiKey sess))"
proof -
  have a: "openai_api_key cfg = Some k \<and> k \<noteq> [] \<longrightarrow> resolve_openaiApiKey rt cfg fn = Str k"
    by (simp add: resolve_openaiApiKey_def js_of_def)
  have b: "openai_api_key cfg = None \<or> openai_api_key cfg = Some [] \<longrightarrow>
        resolve_openaiApiKey rt cfg (Some (Inr v)) = (if truthy v then v else OPENAI_API_KEY rt)
        \<and> resolve_openaiApiKey rt cfg (Some (Inl e)) = OPENAI_API_KEY rt
        \<and> resolve_openaiApiKey rt cfg None = OPENAI_API_KEY rt"
    by (auto simp: resolve_openaiApiKey_def js_of_def)
  have c: "openaiApiKey (handleConversationRelay rt sock cfg tok fn srv0)
           = resolve_openaiApiKey rt cfg fn"
    by (simp add: handleConversationRelay_def)
  have "continues (sess, srv) (on_messages rt ms (sess, srv))"
    by (rule continues_on_messages)
  then have d: "openaiApiKey (fst (on_messages rt ms (sess, srv))) = openaiApiKey sess"
    and e: "\<exists>new. requests (snd (on_messages rt ms (sess, srv))) = requests srv @ new
            \<and> (\<forall>r\<in>set new. fst r = openaiApiKey sess)"
    by (auto simp: continues_def list_all_iff)
  from a b c d e show ?thesis by blast
qed

theorem secret_resolved_once_witness:
  "resolve_openaiApiKey (example_runtime (Inr (text_reply ''It is sunny.'')) (Inl []))
     (example_config []) (Some (Inr (Str ''sk-tunnel-1''))) = Str ''sk-live-1''
   \<and> resolve_openaiApiKey (example_runtime (Inr (text_reply ''It is sunny.'')) (Inl []))
        ((example_config [])\<lparr>openai_api_key := None\<rparr>) (Some (Inr (Str ''sk-tunnel-1'')))
      = Str ''sk-tunnel-1''
   \<and> resolve_openaiApiKey (example_runtime (Inr (text_reply ''It is sunny.'')) (Inl []))
        ((example_config [])\<lparr>openai_api_key := None\<rparr>) (Some (Inr Null))
      = Str ''sk-instructor''
   \<and> resolve_openaiApiKey (example_runtime (Inr (text_reply ''It is sunny.'')) (Inl []))
        ((example_config [])\<lparr>openai_api_key := None\<rparr>)
        (Some (Inl ''Credential request timeout - browser may be closed''))
      = Str ''sk-instructor''
   \<and> openaiApiKey (fst (on_messages (example_runtime (Inr (text_reply ''It is sunny.'')) (Inl []))
        [prompt_text, ''pong'', prompt_text]
        (example_call (example_runtime (Inr (text_reply ''It is sunny.'')) (Inl [])) [] server0)))
      = Str ''sk-live-1''
   \<and> list_all (\<lambda>r. fst r = Str ''sk-live-1'')
        (requests (snd (on_messages (example_runtime (Inr (text_reply ''It is sunny.'')) (Inl []))
           [prompt_text, ''pong'', prompt_text]
           (example_call (example_runtime (Inr (text_reply ''It is sunny.'')) (Inl [])) [] server0))))"
proof -
  let ?rt = "example_runtime (Inr (text_reply ''It is sunny.'')) (Inl [])"
  let ?none = "(example_config [])\<lparr>openai_api_key := None\<rparr>"
  let ?st = "example_call ?rt [] server0"
  have k: "openai_api_key (example_config []) = Some ''sk-live-1''" "''sk-live-1'' \<noteq> []"
    "openai_api_key ?none = None" "OPENAI_API_KEY ?rt = Str ''sk-instructor''"
    by (simp_all add: example_config_def example_runtime_def)
  from k secret_resolved_once [of "example_config []" "''sk-live-1''" ?rt
      "Some (Inr (Str ''sk-tunnel-1''))"]
  have a: "resolve_openaiApiKey ?rt (example_config []) (Some (Inr (Str ''sk-tunnel-1'')))
           = Str ''sk-live-1''"
    by blast
  from k secret_resolved_once [of ?none _ ?rt _ "Str ''sk-tunnel-1''"]
  have b: "resolve_openaiApiKey ?rt ?none (Some (Inr (Str ''sk-tunnel-1''))) = Str ''sk-tunnel-1''"
    by simp
  from k secret_resolved_once [of ?none _ ?rt _ Null
      "''Credential request timeout - browser may be closed''"]
  have c: "resolve_openaiApiKey ?rt ?none (Some (Inr Null)) = Str ''sk-instructor''"
    "resolve_openaiApiKey ?rt ?none
       (Some (Inl ''Credential request timeout - browser may be closed'')) = Str ''sk-instructor''"
    by simp_all
  have pc: "(fst ?st, snd ?st) = ?st" by simp
  note inst = secret_resolved_once [where rt = ?rt and ms = "[prompt_text, ''pong'', prompt_text]"
      and sess = "fst ?st" and srv = "snd ?st" and cfg = "example_config []"
      and k = "''sk-live-1''" and fn = None and v = Null and e = "[]" and sock = 7
      and tok = "''abc123''" and ?srv0.0 = server0, unfolded pc]
  from inst have "openaiApiKey (fst (on_messages ?rt [prompt_text, ''pong'', prompt_text] ?st))
           = openaiApiKey (fst ?st)"
    by blast
  then have d: "openaiApiKey (fst (on_messages ?rt [prompt_text, ''pong'', prompt_text] ?st))
           = Str ''sk-live-1''"
    by (simp add: example_session)
  from inst obtain new where
    n: "requests (snd (on_messages ?rt [prompt_text, ''pong'', prompt_text] ?st))
          = requests (snd ?st) @ new"
       "\<forall>r\<in>set new. fst r = openaiApiKey (fst ?st)"
    by blast
  then have e: "list_all (\<lambda>r. fst r = Str ''sk-live-1'')
              (requests (snd (on_messages ?rt [prompt_text, ''pong'', prompt_text] ?st)))"
    by (simp add: example_session server0_def list_all_iff)
  from a b c d e show ?thesis by simp
qed

text \<open>
  C10. A message that \<^verbatim>\<open>JSON.parse\<close> rejects leaves the session and the server as
  they were: the history and the metadata are unchanged, and no socket was sent anything
  or changed its ready state.
\<close>

theorem unparseable_message_ignored:
  assumes "JSON_parse rt message = Inl err"
  shows "on_message rt message (sess, srv) = (sess, srv)
       \<and> conversationHistory (fst (on_message rt message (sess, srv))) = conversationHistory sess
       \<and> callMetadata (fst (on_message rt message (sess, srv))) = callMetadata sess
       \<and> sockets (snd (on_message rt message (sess, srv))) = sockets srv"
  using assms by (simp add: on_message_def)

theorem unparseable_message_ignored_witness:
  "JSON_parse (example_runtime (Inr (text_reply ''It is sunny.'')) (Inl [])) ''pong''
     = Inl ''Unexpected token in JSON''
   \<and> on_message (example_runtime (Inr (text_reply ''It is sunny.'')) (Inl [])) ''pong''
        (example_call (example_runtime (Inr (text_reply ''It is sunny.'')) (Inl [])) [] server0)
      = example_call (example_runtime (Inr (text_reply ''It is sunny.'')) (Inl [])) [] server0"
proof -
  let ?rt = "example_runtime (Inr (text_reply ''It is sunny.'')) (Inl [])"
  have p: "JSON_parse ?rt ''pong'' = Inl ''Unexpected token in JSON''"
    by (simp add: example_runtime_def example_parse_simps)
  from unparseable_message_ignored [OF p, of "fst (example_call ?rt [] server0)"
      "snd (example_call ?rt [] server0)"] p
  show ?thesis by simp
qed


end
